theory Spec2Isabelle
  imports Complex_Main "HOL-Library.Monad_Syntax"
begin

section \<open>The MusicXML importer of Verovio (iomusxml.cpp)\<close>

text \<open>
  A shallow embedding of \<^verbatim>\<open>MusicXmlInput\<close>. The input document is a tree of
  elements as pugixml presents it; the MEI objects the importer builds live in an explicit
  store, because the importer keeps pointers to the same object in several places (the
  element stack, the pending tie and slur lists, the list of control elements) and mutates
  it through any of them. Every function that the source runs for its effect takes the
  importer state and returns the new one; a function that can leave defined behaviour
  (a failed \<^verbatim>\<open>assert\<close>, an index outside a vector, a division by zero) returns
  \<open>None\<close> there.
\<close>

subsection \<open>Strings and numbers of the C library\<close>

definition isspace :: "char \<Rightarrow> bool" where
  "isspace c = (c = CHR '' '' \<or> c = CHR 0x09 \<or> c = CHR 0x0A \<or> c = CHR 0x0B
                \<or> c = CHR 0x0C \<or> c = CHR 0x0D)"

definition digit_of :: "char \<Rightarrow> int option" where
  "digit_of c = map_of [(CHR ''0'', 0), (CHR ''1'', 1), (CHR ''2'', 2), (CHR ''3'', 3),
     (CHR ''4'', 4), (CHR ''5'', 5), (CHR ''6'', 6), (CHR ''7'', 7), (CHR ''8'', 8),
     (CHR ''9'', 9)] c"

fun atoi_digits :: "int \<Rightarrow> string \<Rightarrow> int" where
  "atoi_digits acc [] = acc"
| "atoi_digits acc (c # cs) =
     (case digit_of c of None \<Rightarrow> acc | Some d \<Rightarrow> atoi_digits (acc * 10 + d) cs)"

text \<open>\<^verbatim>\<open>atoi\<close>: leading white space, an optional sign, then the longest run of
  digits; 0 when there is none. C's \<^verbatim>\<open>int\<close> is modelled by \<open>int\<close> (no document
  value in the properties below is near the 32-bit range).\<close>

definition atoi :: "string \<Rightarrow> int" where
  "atoi str =
     (case dropWhile isspace str of
        [] \<Rightarrow> 0
      | c # cs \<Rightarrow>
          if c = CHR ''-'' then - atoi_digits 0 cs
          else if c = CHR ''+'' then atoi_digits 0 cs
          else atoi_digits 0 (c # cs))"

definition digit_char :: "nat \<Rightarrow> char" where
  "digit_char d = ''0123456789'' ! d"

fun dec :: "nat \<Rightarrow> string" where
  "dec n = (if n < 10 then [digit_char n] else dec (n div 10) @ [digit_char (n mod 10)])"

declare dec.simps [simp del]

text \<open>\<^verbatim>\<open>std::to_string(int)\<close>.\<close>

definition to_string :: "int \<Rightarrow> string" where
  "to_string i = (if i < 0 then CHR ''-'' # dec (nat (- i)) else dec (nat i))"

text \<open>\<^verbatim>\<open>std::atof\<close> on decimal text: leading white space, an optional sign, digits
  with an optional fraction, and an optional exponent, which counts only when a digit
  follows it; 0 when there is no digit. Hexadecimal text and the names of infinities are
  left out, and the floating value is idealised as the rational it denotes.\<close>

definition isdigit :: "char \<Rightarrow> bool" where
  "isdigit c = (digit_of c \<noteq> None)"

definition atof_exponent :: "string \<Rightarrow> int" where
  "atof_exponent str =
     (case str of
        [] \<Rightarrow> 0
      | c # cs \<Rightarrow>
          if c = CHR ''e'' \<or> c = CHR ''E'' then
            (case cs of
               [] \<Rightarrow> 0
             | d # ds \<Rightarrow>
                 if d = CHR ''-'' then - atoi_digits 0 ds
                 else if d = CHR ''+'' then atoi_digits 0 ds
                 else atoi_digits 0 cs)
          else 0)"

definition atof :: "string \<Rightarrow> rat" where
  "atof str =
     (let t = dropWhile isspace str;
          neg = (t \<noteq> [] \<and> hd t = CHR ''-'');
          u = (if t \<noteq> [] \<and> (hd t = CHR ''-'' \<or> hd t = CHR ''+'') then tl t else t);
          ip = takeWhile isdigit u;
          r1 = dropWhile isdigit u;
          fp = (if r1 \<noteq> [] \<and> hd r1 = CHR ''.'' then takeWhile isdigit (tl r1) else []);
          r2 = (if r1 \<noteq> [] \<and> hd r1 = CHR ''.'' then dropWhile isdigit (tl r1) else r1);
          m = of_int (atoi_digits 0 (ip @ fp)) / 10 ^ length fp;
          e = atof_exponent r2;
          v = (if ip @ fp = [] then 0
               else if 0 \<le> e then m * 10 ^ nat e else m / 10 ^ nat (- e))
      in if neg then - v else v)"

text \<open>The warning of \<^verbatim>\<open>ConvertAlterToAccid\<close> hands its floating argument to the
  conversion \<^verbatim>\<open>%d\<close>, for which C defines no output: the digits that appear in the
  warning are left unspecified.\<close>

definition printf_d :: "rat \<Rightarrow> string" where
  "printf_d x = undefined"

text \<open>A string between single quotes, as the format \<^verbatim>\<open>'%s'\<close> prints it.\<close>

definition quoted :: "string \<Rightarrow> string" where
  "quoted v = CHR 0x27 # v @ [CHR 0x27]"

text \<open>The conversion of a floating value to \<^verbatim>\<open>int\<close> truncates towards zero.\<close>

definition trunc :: "rat \<Rightarrow> int" where
  "trunc r = (if 0 \<le> r then \<lfloor>r\<rfloor> else \<lceil>r\<rceil>)"

subsection \<open>The document tree and the queries the importer makes\<close>

text \<open>
  An element has a name, attributes in document order, the value of its first text child
  (empty when it has none: the parser keeps no empty text node), and its child elements.
\<close>

datatype xml_node =
  XmlNode (node_name: string) (node_attrs: "(string \<times> string) list") (node_text: string)
    (node_children: "xml_node list")

definition GetAttributeValue :: "xml_node \<Rightarrow> string \<Rightarrow> string" where
  "GetAttributeValue node a = (case map_of (node_attrs node) a of Some v \<Rightarrow> v | None \<Rightarrow> [])"

definition HasAttributeWithValue :: "xml_node \<Rightarrow> string \<Rightarrow> string \<Rightarrow> bool" where
  "HasAttributeWithValue node a v = (GetAttributeValue node a = v)"

definition IsElement :: "xml_node \<Rightarrow> string \<Rightarrow> bool" where
  "IsElement node name = (node_name node = name)"

definition HasContent :: "xml_node \<Rightarrow> bool" where
  "HasContent node = (node_text node \<noteq> [])"

definition GetContent :: "xml_node \<Rightarrow> string" where
  "GetContent node = node_text node"

text \<open>
  The XPath expressions of the source use the child axis with tests on an attribute, on
  the text and on the position; the sibling axes are handled where they occur, from the
  lists of siblings before and after the element being read.
\<close>

datatype xpath_pred =
  HasAttr string | AttrEq string string | NotAttrEq string string | TextEq string | First

datatype xpath_step = Child string "xpath_pred list" | AnyChild

fun apply_pred :: "xml_node list \<Rightarrow> xpath_pred \<Rightarrow> xml_node list" where
  "apply_pred ns (HasAttr a) = filter (\<lambda>n. map_of (node_attrs n) a \<noteq> None) ns"
| "apply_pred ns (AttrEq a v) = filter (\<lambda>n. map_of (node_attrs n) a = Some v) ns"
| "apply_pred ns (NotAttrEq a v) = filter (\<lambda>n. map_of (node_attrs n) a \<noteq> Some v) ns"
| "apply_pred ns (TextEq v) = filter (\<lambda>n. node_text n \<noteq> [] \<and> node_text n = v) ns"
| "apply_pred ns First = take 1 ns"

fun select_step :: "xpath_step \<Rightarrow> xml_node \<Rightarrow> xml_node list" where
  "select_step (Child name ps) n =
     foldl apply_pred (filter (\<lambda>c. node_name c = name) (node_children n)) ps"
| "select_step AnyChild n = node_children n"

fun select_nodes_from :: "xml_node list \<Rightarrow> xpath_step list \<Rightarrow> xml_node list" where
  "select_nodes_from ns [] = ns"
| "select_nodes_from ns (st # rest) = select_nodes_from (concat (map (select_step st) ns)) rest"

definition select_nodes :: "xml_node \<Rightarrow> xpath_step list \<Rightarrow> xml_node list" where
  "select_nodes n path = select_nodes_from [n] path"

definition select_single_node :: "xml_node \<Rightarrow> xpath_step list \<Rightarrow> xml_node option" where
  "select_single_node n path = (case select_nodes n path of [] \<Rightarrow> None | x # _ \<Rightarrow> Some x)"

definition has_node :: "xml_node \<Rightarrow> xpath_step list \<Rightarrow> bool" where
  "has_node n path = (select_nodes n path \<noteq> [])"

text \<open>A path of plain child names, as in \<^verbatim>\<open>"root/root-step"\<close>.\<close>

definition nm :: "string \<Rightarrow> xpath_step" where
  "nm name = Child name []"

definition GetContentOfChild :: "xml_node \<Rightarrow> xpath_step list \<Rightarrow> string" where
  "GetContentOfChild node path =
     (case select_single_node node path of
        None \<Rightarrow> []
      | Some c \<Rightarrow> if HasContent c then GetContent c else [])"

text \<open>\<^verbatim>\<open>next_sibling(name)\<close> and \<^verbatim>\<open>following-sibling::name[1]\<close>: the first later sibling
  of that name; \<^verbatim>\<open>preceding-sibling::name[1]\<close> is the nearest earlier one (the list of
  earlier siblings is kept nearest first).\<close>

definition sibling_named :: "string \<Rightarrow> xml_node list \<Rightarrow> xml_node option" where
  "sibling_named name sibs = find (\<lambda>n. node_name n = name) sibs"

subsection \<open>MEI values\<close>

datatype ClassId =
  ACCID | ARTIC | BEAM | BTREM | CHORD | CLEF | DIR | DOC | DYNAM | FERMATA | FTREM | HAIRPIN
  | HARM | LAYER | MEASURE | MORDENT | MREST | MRPT | NOTE | OCTAVE | PEDAL | REND | REST
  | SCORE | SCOREDEF | SECTION | SLUR | SPACE | STAFF | STAFFDEF | STAFFGRP | SYL | TEMPO
  | TEXT | TIE | TRILL | TUPLET | TURN | VERSE

text \<open>Modelled from the spec: \<^verbatim>\<open>Object::GetClassName\<close> is not part of the source
  file; it gives the name of the class of an element, which the importer prints in one
  warning.\<close>

fun GetClassName :: "ClassId \<Rightarrow> string" where
  "GetClassName ACCID = ''Accid''"
| "GetClassName ARTIC = ''Artic''"
| "GetClassName BEAM = ''Beam''"
| "GetClassName BTREM = ''BTrem''"
| "GetClassName CHORD = ''Chord''"
| "GetClassName CLEF = ''Clef''"
| "GetClassName DIR = ''Dir''"
| "GetClassName DOC = ''Doc''"
| "GetClassName DYNAM = ''Dynam''"
| "GetClassName FERMATA = ''Fermata''"
| "GetClassName FTREM = ''FTrem''"
| "GetClassName HAIRPIN = ''Hairpin''"
| "GetClassName HARM = ''Harm''"
| "GetClassName LAYER = ''Layer''"
| "GetClassName MEASURE = ''Measure''"
| "GetClassName MORDENT = ''Mordent''"
| "GetClassName MREST = ''MRest''"
| "GetClassName MRPT = ''MRpt''"
| "GetClassName NOTE = ''Note''"
| "GetClassName OCTAVE = ''Octave''"
| "GetClassName PEDAL = ''Pedal''"
| "GetClassName REND = ''Rend''"
| "GetClassName REST = ''Rest''"
| "GetClassName SCORE = ''Score''"
| "GetClassName SCOREDEF = ''ScoreDef''"
| "GetClassName SECTION = ''Section''"
| "GetClassName SLUR = ''Slur''"
| "GetClassName SPACE = ''Space''"
| "GetClassName STAFF = ''Staff''"
| "GetClassName STAFFDEF = ''StaffDef''"
| "GetClassName STAFFGRP = ''StaffGrp''"
| "GetClassName SYL = ''Syl''"
| "GetClassName TEMPO = ''Tempo''"
| "GetClassName TEXT = ''Text''"
| "GetClassName TIE = ''Tie''"
| "GetClassName TRILL = ''Trill''"
| "GetClassName TUPLET = ''Tuplet''"
| "GetClassName TURN = ''Turn''"
| "GetClassName VERSE = ''Verse''"

datatype data_DURATION =
  DURATION_NONE | DURATION_maxima | DURATION_long | DURATION_breve | DURATION_1 | DURATION_2
  | DURATION_4 | DURATION_8 | DURATION_16 | DURATION_32 | DURATION_64 | DURATION_128
  | DURATION_256 | DURATION_512 | DURATION_1024 | DURATION_2048

datatype data_PITCHNAME =
  PITCHNAME_NONE | PITCHNAME_c | PITCHNAME_d | PITCHNAME_e | PITCHNAME_f | PITCHNAME_g
  | PITCHNAME_a | PITCHNAME_b

datatype data_BOOLEAN = BOOLEAN_NONE | BOOLEAN_true | BOOLEAN_false

datatype data_STEMDIRECTION = STEMDIRECTION_NONE | STEMDIRECTION_up | STEMDIRECTION_down

datatype data_GRACE = GRACE_NONE | GRACE_acc | GRACE_unacc | GRACE_unknown

datatype data_PLACE = PLACE_NONE | PLACE_above | PLACE_below

datatype curvature_CURVEDIR =
  curvature_CURVEDIR_NONE | curvature_CURVEDIR_above | curvature_CURVEDIR_below

datatype data_ACCIDENTAL_EXPLICIT =
  ACCIDENTAL_EXPLICIT_NONE | ACCIDENTAL_EXPLICIT_s | ACCIDENTAL_EXPLICIT_n
  | ACCIDENTAL_EXPLICIT_f | ACCIDENTAL_EXPLICIT_x | ACCIDENTAL_EXPLICIT_ss
  | ACCIDENTAL_EXPLICIT_ff | ACCIDENTAL_EXPLICIT_ns | ACCIDENTAL_EXPLICIT_nf
  | ACCIDENTAL_EXPLICIT_1qf | ACCIDENTAL_EXPLICIT_1qs | ACCIDENTAL_EXPLICIT_3qf
  | ACCIDENTAL_EXPLICIT_3qs

datatype data_ACCIDENTAL_IMPLICIT =
  ACCIDENTAL_IMPLICIT_NONE | ACCIDENTAL_IMPLICIT_s | ACCIDENTAL_IMPLICIT_f
  | ACCIDENTAL_IMPLICIT_ss | ACCIDENTAL_IMPLICIT_ff | ACCIDENTAL_IMPLICIT_n
  | ACCIDENTAL_IMPLICIT_su | ACCIDENTAL_IMPLICIT_sd | ACCIDENTAL_IMPLICIT_fu
  | ACCIDENTAL_IMPLICIT_fd

datatype data_BARRENDITION =
  BARRENDITION_NONE | BARRENDITION_dashed | BARRENDITION_dotted | BARRENDITION_dbl
  | BARRENDITION_dbldashed | BARRENDITION_dbldotted | BARRENDITION_end | BARRENDITION_invis
  | BARRENDITION_rptstart | BARRENDITION_rptboth | BARRENDITION_rptend | BARRENDITION_single


datatype pedalLog_DIR = pedalLog_DIR_NONE | pedalLog_DIR_down | pedalLog_DIR_up


datatype DocType = Raw | Rendering | Transcription

subsection \<open>The object store\<close>

text \<open>
  One record stands for every MEI object; \<open>classId\<close> tells which class it is, and an
  attribute that the class does not have keeps its unset value. Only the attributes that
  the importer reads back, or that the properties below speak about, are kept; colours,
  languages, text content, placement and the other purely visual attributes are left out.
  An unset \<^verbatim>\<open>@n\<close> and an unset \<^verbatim>\<open>@oct\<close> read as 0, an unset reference as the empty
  string (so \<^verbatim>\<open>HasEndid()\<close> is \<open>att_endid \<noteq> []\<close>).
\<close>

record obj =
  classId :: ClassId
  uuid :: string
  parent :: "nat option"
  children :: "nat list"
  att_n :: int
  att_pname :: data_PITCHNAME
  att_oct :: int
  att_octGes :: int
  att_dur :: data_DURATION
  att_dots :: int
  att_stemDir :: data_STEMDIRECTION
  att_stemMod :: string
  att_cue :: bool
  att_grace :: data_GRACE
  att_visible :: data_BOOLEAN
  att_startid :: string
  att_endid :: string
  att_staff :: "int list"
  att_curvedir :: curvature_CURVEDIR
  att_disPlace :: data_PLACE
  att_label :: string
  att_midiBpm :: int

datatype musicxml_OpenTie =
  musicxml_OpenTie (tie_staffN: int) (tie_layerN: int) (tie_pname: data_PITCHNAME) (tie_oct: int)

datatype musicxml_OpenSlur = musicxml_OpenSlur (slur_staffN: int) (slur_layerN: int) (slur_number: int)

datatype musicxml_OpenHairpin = musicxml_OpenHairpin (hairpin_dirN: int) (hairpin_endID: string)

text \<open>The destination document: its type, its header, its score definition and score
  buffer (both objects of the store), and whether the conversion to a page-based document
  has run.\<close>

record Doc =
  doc_type :: DocType
  m_header :: "xml_node list"
  m_scoreDef :: nat
  m_scoreBuffer :: "nat option"
  pageBased :: nat

record state =
  objs :: "nat \<Rightarrow> obj"
  next_obj :: nat
  warnings :: "string list"
  m_doc :: Doc
  m_ppq :: int
  m_durTotal :: int
  m_meterCount :: int
  m_mRpt :: bool
  m_ID :: string
  m_elementStack :: "nat list"
  m_tieStack :: "(nat \<times> musicxml_OpenTie) list"
  m_slurStack :: "(nat \<times> musicxml_OpenSlur) list"
  m_hairpinStack :: "(nat \<times> musicxml_OpenHairpin) list"
  m_dirStack :: "nat list"
  m_dynamStack :: "nat list"
  m_harmStack :: "nat list"
  m_octaveStack :: "nat list"
  m_pedalStack :: "nat list"
  m_tempoStack :: "nat list"
  m_controlElements :: "(int \<times> nat) list"
  m_octDis :: "int list"

definition LogWarning :: "string \<Rightarrow> state \<Rightarrow> state" where
  "LogWarning msg s = s\<lparr>warnings := warnings s @ [msg]\<rparr>"

definition LogWarnings :: "string list \<Rightarrow> state \<Rightarrow> state" where
  "LogWarnings msgs s = s\<lparr>warnings := warnings s @ msgs\<rparr>"

text \<open>Modelled from the spec: the constructor of \<^verbatim>\<open>Object\<close> is not part of the source
  file. Every created object receives a process-unique identifier; here it is derived
  from the position of the object in the store.\<close>

definition GenerateUuid :: "nat \<Rightarrow> string" where
  "GenerateUuid a = ''m-'' @ dec a"

definition empty_obj :: "ClassId \<Rightarrow> string \<Rightarrow> obj" where
  "empty_obj c u =
     \<lparr>classId = c, uuid = u, parent = None, children = [], att_n = 0,
      att_pname = PITCHNAME_NONE, att_oct = 0, att_octGes = 0, att_dur = DURATION_NONE,
      att_dots = 0, att_stemDir = STEMDIRECTION_NONE, att_stemMod = [], att_cue = False,
      att_grace = GRACE_NONE, att_visible = BOOLEAN_NONE, att_startid = [], att_endid = [],
      att_staff = [], att_curvedir = curvature_CURVEDIR_NONE, att_disPlace = PLACE_NONE,
      att_label = [], att_midiBpm = 0\<rparr>"

text \<open>\<^verbatim>\<open>new C()\<close>: the next free place of the store.\<close>

definition new_obj :: "ClassId \<Rightarrow> state \<Rightarrow> nat \<times> state" where
  "new_obj c s =
     (next_obj s,
      s\<lparr>objs := (objs s)(next_obj s := empty_obj c (GenerateUuid (next_obj s))),
        next_obj := next_obj s + 1\<rparr>)"

definition upd :: "nat \<Rightarrow> (obj \<Rightarrow> obj) \<Rightarrow> state \<Rightarrow> state" where
  "upd a f s = s\<lparr>objs := (objs s)(a := f (objs s a))\<rparr>"

definition Is :: "state \<Rightarrow> nat \<Rightarrow> ClassId \<Rightarrow> bool" where
  "Is s a c = (classId (objs s a) = c)"

definition GetUuid :: "state \<Rightarrow> nat \<Rightarrow> string" where
  "GetUuid s a = uuid (objs s a)"

definition GetN :: "state \<Rightarrow> nat \<Rightarrow> int" where
  "GetN s a = att_n (objs s a)"

definition GetPname :: "state \<Rightarrow> nat \<Rightarrow> data_PITCHNAME" where
  "GetPname s a = att_pname (objs s a)"

definition GetOct :: "state \<Rightarrow> nat \<Rightarrow> int" where
  "GetOct s a = att_oct (objs s a)"

definition GetChildCount :: "state \<Rightarrow> nat \<Rightarrow> nat" where
  "GetChildCount s a = length (children (objs s a))"

definition GetChild :: "state \<Rightarrow> nat \<Rightarrow> int \<Rightarrow> nat option" where
  "GetChild s a i =
     (if 0 \<le> i \<and> nat i < length (children (objs s a)) then Some (children (objs s a) ! nat i)
      else None)"

definition SetN :: "nat \<Rightarrow> int \<Rightarrow> state \<Rightarrow> state" where
  "SetN a v = upd a (\<lambda>ob. ob\<lparr>att_n := v\<rparr>)"

definition SetPname :: "nat \<Rightarrow> data_PITCHNAME \<Rightarrow> state \<Rightarrow> state" where
  "SetPname a v = upd a (\<lambda>ob. ob\<lparr>att_pname := v\<rparr>)"

definition SetOct :: "nat \<Rightarrow> int \<Rightarrow> state \<Rightarrow> state" where
  "SetOct a v = upd a (\<lambda>ob. ob\<lparr>att_oct := v\<rparr>)"

definition SetOctGes :: "nat \<Rightarrow> int \<Rightarrow> state \<Rightarrow> state" where
  "SetOctGes a v = upd a (\<lambda>ob. ob\<lparr>att_octGes := v\<rparr>)"

definition SetDur :: "nat \<Rightarrow> data_DURATION \<Rightarrow> state \<Rightarrow> state" where
  "SetDur a v = upd a (\<lambda>ob. ob\<lparr>att_dur := v\<rparr>)"

definition SetDots :: "nat \<Rightarrow> int \<Rightarrow> state \<Rightarrow> state" where
  "SetDots a v = upd a (\<lambda>ob. ob\<lparr>att_dots := v\<rparr>)"

definition SetStemDir :: "nat \<Rightarrow> data_STEMDIRECTION \<Rightarrow> state \<Rightarrow> state" where
  "SetStemDir a v = upd a (\<lambda>ob. ob\<lparr>att_stemDir := v\<rparr>)"

definition SetStemMod :: "nat \<Rightarrow> string \<Rightarrow> state \<Rightarrow> state" where
  "SetStemMod a v = upd a (\<lambda>ob. ob\<lparr>att_stemMod := v\<rparr>)"

definition SetSizeCue :: "nat \<Rightarrow> state \<Rightarrow> state" where
  "SetSizeCue a = upd a (\<lambda>ob. ob\<lparr>att_cue := True\<rparr>)"

definition SetGrace :: "nat \<Rightarrow> data_GRACE \<Rightarrow> state \<Rightarrow> state" where
  "SetGrace a v = upd a (\<lambda>ob. ob\<lparr>att_grace := v\<rparr>)"

definition SetVisible :: "nat \<Rightarrow> data_BOOLEAN \<Rightarrow> state \<Rightarrow> state" where
  "SetVisible a v = upd a (\<lambda>ob. ob\<lparr>att_visible := v\<rparr>)"

definition SetStartid :: "nat \<Rightarrow> string \<Rightarrow> state \<Rightarrow> state" where
  "SetStartid a v = upd a (\<lambda>ob. ob\<lparr>att_startid := v\<rparr>)"

definition SetEndid :: "nat \<Rightarrow> string \<Rightarrow> state \<Rightarrow> state" where
  "SetEndid a v = upd a (\<lambda>ob. ob\<lparr>att_endid := v\<rparr>)"

definition SetStaff :: "nat \<Rightarrow> int list \<Rightarrow> state \<Rightarrow> state" where
  "SetStaff a v = upd a (\<lambda>ob. ob\<lparr>att_staff := v\<rparr>)"

definition SetCurvedir :: "nat \<Rightarrow> curvature_CURVEDIR \<Rightarrow> state \<Rightarrow> state" where
  "SetCurvedir a v = upd a (\<lambda>ob. ob\<lparr>att_curvedir := v\<rparr>)"

definition SetDisPlace :: "nat \<Rightarrow> data_PLACE \<Rightarrow> state \<Rightarrow> state" where
  "SetDisPlace a v = upd a (\<lambda>ob. ob\<lparr>att_disPlace := v\<rparr>)"

definition SetLabel :: "nat \<Rightarrow> string \<Rightarrow> state \<Rightarrow> state" where
  "SetLabel a v = upd a (\<lambda>ob. ob\<lparr>att_label := v\<rparr>)"

definition SetMidiBpm :: "nat \<Rightarrow> int \<Rightarrow> state \<Rightarrow> state" where
  "SetMidiBpm a v = upd a (\<lambda>ob. ob\<lparr>att_midiBpm := v\<rparr>)"

text \<open>Modelled from the spec: \<^verbatim>\<open>Object::AddChild\<close>, \<^verbatim>\<open>Relinquish\<close> and
  \<^verbatim>\<open>MoveChildrenFrom\<close> are not part of the source file. A container owns its children
  in order; adding a child appends it and makes the container its parent; relinquishing a
  child detaches it from its parent and hands it over; moving the children of a container
  appends them all to the new owner and leaves the old one empty.\<close>

definition AddChild :: "nat \<Rightarrow> nat \<Rightarrow> state \<Rightarrow> state" where
  "AddChild p c s =
     upd p (\<lambda>ob. ob\<lparr>children := children ob @ [c]\<rparr>) (upd c (\<lambda>ob. ob\<lparr>parent := Some p\<rparr>) s)"

definition Relinquish :: "nat \<Rightarrow> state \<Rightarrow> state" where
  "Relinquish c = upd c (\<lambda>ob. ob\<lparr>parent := None\<rparr>)"

definition MoveChildrenFrom :: "nat \<Rightarrow> nat \<Rightarrow> state \<Rightarrow> state" where
  "MoveChildrenFrom p src s =
     upd src (\<lambda>ob. ob\<lparr>children := []\<rparr>) (fold (AddChild p) (children (objs s src)) s)"

text \<open>The first child of a class, and the first child of a class with a given
  \<^verbatim>\<open>@n\<close> (\<^verbatim>\<open>FindChildByAttComparison\<close> with an \<^verbatim>\<open>AttCommonNComparison\<close>, depth 1).\<close>

definition GetFirst :: "state \<Rightarrow> nat \<Rightarrow> ClassId \<Rightarrow> nat option" where
  "GetFirst s a c = find (\<lambda>k. Is s k c) (children (objs s a))"

definition FindChildByN :: "state \<Rightarrow> nat \<Rightarrow> ClassId \<Rightarrow> int \<Rightarrow> nat option" where
  "FindChildByN s a c n = find (\<lambda>k. Is s k c \<and> GetN s k = n) (children (objs s a))"

subsection \<open>String to attribute converters\<close>

text \<open>Each converter returns the value together with the warnings it logs.\<close>

definition ConvertAccidentalToAccid :: "string \<Rightarrow> data_ACCIDENTAL_EXPLICIT \<times> string list" where
  "ConvertAccidentalToAccid v =
     (if v = ''sharp'' then (ACCIDENTAL_EXPLICIT_s, [])
      else if v = ''natural'' then (ACCIDENTAL_EXPLICIT_n, [])
      else if v = ''flat'' then (ACCIDENTAL_EXPLICIT_f, [])
      else if v = ''double-sharp'' then (ACCIDENTAL_EXPLICIT_x, [])
      else if v = ''sharp-sharp'' then (ACCIDENTAL_EXPLICIT_ss, [])
      else if v = ''flat-flat'' then (ACCIDENTAL_EXPLICIT_ff, [])
      else if v = ''natural-sharp'' then (ACCIDENTAL_EXPLICIT_ns, [])
      else if v = ''natural-flat'' then (ACCIDENTAL_EXPLICIT_nf, [])
      else if v = ''quarter-flat'' then (ACCIDENTAL_EXPLICIT_1qf, [])
      else if v = ''quarter-sharp'' then (ACCIDENTAL_EXPLICIT_1qs, [])
      else if v = ''three-quarters-flat'' then (ACCIDENTAL_EXPLICIT_3qf, [])
      else if v = ''three-quarters-sharp'' then (ACCIDENTAL_EXPLICIT_3qs, [])
      else (ACCIDENTAL_EXPLICIT_NONE, [''Unsupported accidental value '' @ quoted v]))"

definition ConvertAlterToAccid :: "rat \<Rightarrow> data_ACCIDENTAL_IMPLICIT \<times> string list" where
  "ConvertAlterToAccid v =
     (if v = - 2 then (ACCIDENTAL_IMPLICIT_ff, [])
      else if v = - 3 / 2 then (ACCIDENTAL_IMPLICIT_fd, [])
      else if v = - 1 then (ACCIDENTAL_IMPLICIT_f, [])
      else if v = - 1 / 2 then (ACCIDENTAL_IMPLICIT_fu, [])
      else if v = 0 then (ACCIDENTAL_IMPLICIT_n, [])
      else if v = 1 / 2 then (ACCIDENTAL_IMPLICIT_sd, [])
      else if v = 1 then (ACCIDENTAL_IMPLICIT_s, [])
      else if v = 3 / 2 then (ACCIDENTAL_IMPLICIT_su, [])
      else if v = 2 then (ACCIDENTAL_IMPLICIT_ss, [])
      else (ACCIDENTAL_IMPLICIT_NONE, [''Unsupported alter value '' @ quoted (printf_d v)]))"

definition ConvertStyleToRend :: "string \<Rightarrow> bool \<Rightarrow> data_BARRENDITION \<times> string list" where
  "ConvertStyleToRend v repeat =
     (if v = ''dashed'' then (BARRENDITION_dashed, [])
      else if v = ''dotted'' then (BARRENDITION_dotted, [])
      else if v = ''light-light'' then (BARRENDITION_dbl, [])
      else if v = ''regular'' then (BARRENDITION_dbldashed, [])
      else if v = ''regular'' then (BARRENDITION_dbldotted, [])
      else if v = ''light-heavy'' \<and> \<not> repeat then (BARRENDITION_end, [])
      else if v = ''none'' then (BARRENDITION_invis, [])
      else if v = ''heavy-light'' \<and> repeat then (BARRENDITION_rptstart, [])
      else if v = ''light-heavy'' \<and> repeat then (BARRENDITION_rptend, [])
      else if v = ''regular'' then (BARRENDITION_single, [])
      else (BARRENDITION_NONE, [''Unsupported bar-style '' @ quoted v]))"

definition ConvertWordToBool :: "string \<Rightarrow> data_BOOLEAN \<times> string list" where
  "ConvertWordToBool v =
     (if v = ''yes'' then (BOOLEAN_true, [])
      else if v = ''no'' then (BOOLEAN_false, [])
      else (BOOLEAN_NONE, []))"

definition ConvertTypeToDur :: "string \<Rightarrow> data_DURATION \<times> string list" where
  "ConvertTypeToDur v =
     (if v = ''maxima'' then (DURATION_maxima, [])
      else if v = ''long'' then (DURATION_long, [])
      else if v = ''breve'' then (DURATION_breve, [])
      else if v = ''whole'' then (DURATION_1, [])
      else if v = ''half'' then (DURATION_2, [])
      else if v = ''quarter'' then (DURATION_4, [])
      else if v = ''eighth'' then (DURATION_8, [])
      else if v = ''16th'' then (DURATION_16, [])
      else if v = ''32nd'' then (DURATION_32, [])
      else if v = ''64th'' then (DURATION_64, [])
      else if v = ''128th'' then (DURATION_128, [])
      else if v = ''256th'' then (DURATION_256, [])
      else (DURATION_NONE, [''Unsupported type '' @ quoted v]))"

definition ConvertStepToPitchName :: "string \<Rightarrow> data_PITCHNAME \<times> string list" where
  "ConvertStepToPitchName v =
     (if v = ''C'' then (PITCHNAME_c, [])
      else if v = ''D'' then (PITCHNAME_d, [])
      else if v = ''E'' then (PITCHNAME_e, [])
      else if v = ''F'' then (PITCHNAME_f, [])
      else if v = ''G'' then (PITCHNAME_g, [])
      else if v = ''A'' then (PITCHNAME_a, [])
      else if v = ''B'' then (PITCHNAME_b, [])
      else (PITCHNAME_NONE, [''Unsupported pitch name '' @ quoted v]))"

definition ConvertOrientationToCurvedir :: "string \<Rightarrow> curvature_CURVEDIR \<times> string list" where
  "ConvertOrientationToCurvedir v =
     (if v = ''over'' then (curvature_CURVEDIR_above, [])
      else if v = ''under'' then (curvature_CURVEDIR_below, [])
      else (curvature_CURVEDIR_NONE, []))"


definition ConvertPedalTypeToDir :: "string \<Rightarrow> pedalLog_DIR \<times> string list" where
  "ConvertPedalTypeToDir v =
     (if v = ''start'' then (pedalLog_DIR_down, [])
      else if v = ''stop'' then (pedalLog_DIR_up, [])
      else (pedalLog_DIR_NONE, [''Unsupported type '' @ quoted v @ '' for pedal'']))"


text \<open>Modelled from the spec: \<^verbatim>\<open>Att::StrToDuration\<close> (the MEI duration names) is not
  part of the source file. Only its values on decimal strings matter here, since the
  importer calls it on the output of \<^verbatim>\<open>std::to_string\<close> alone; its logging is not
  modelled.\<close>

definition StrToDuration :: "string \<Rightarrow> data_DURATION" where
  "StrToDuration v =
     (if v = ''long'' then DURATION_long
      else if v = ''breve'' then DURATION_breve
      else if v = ''1'' then DURATION_1
      else if v = ''2'' then DURATION_2
      else if v = ''4'' then DURATION_4
      else if v = ''8'' then DURATION_8
      else if v = ''16'' then DURATION_16
      else if v = ''32'' then DURATION_32
      else if v = ''64'' then DURATION_64
      else if v = ''128'' then DURATION_128
      else if v = ''256'' then DURATION_256
      else if v = ''512'' then DURATION_512
      else if v = ''1024'' then DURATION_1024
      else if v = ''2048'' then DURATION_2048
      else DURATION_NONE)"

subsection \<open>The element stack\<close>

definition AddLayerElement :: "nat \<Rightarrow> nat \<Rightarrow> state \<Rightarrow> state" where
  "AddLayerElement layer element s =
     (if m_elementStack s = [] then AddChild layer element s
      else AddChild (last (m_elementStack s)) element s)"

text \<open>The erasure of the first element of a list that satisfies a test, as the loops
  over the pending lists do it (\<^verbatim>\<open>erase(iter); return;\<close>).\<close>

fun erase_first :: "('a \<Rightarrow> bool) \<Rightarrow> 'a list \<Rightarrow> 'a list" where
  "erase_first P [] = []"
| "erase_first P (x # xs) = (if P x then xs else x # erase_first P xs)"

text \<open>\<^verbatim>\<open>RemoveLastFromStack\<close> walks the stack with a reverse iterator, from its top
  (the back of the vector) down, and erases the first element of the class it meets.\<close>

definition RemoveLastFromStack :: "ClassId \<Rightarrow> state \<Rightarrow> state" where
  "RemoveLastFromStack c s =
     s\<lparr>m_elementStack := rev (erase_first (\<lambda>e. Is s e c) (rev (m_elementStack s)))\<rparr>"

subsection \<open>Tie and slur stack management\<close>

definition OpenTie :: "nat \<Rightarrow> nat \<Rightarrow> nat \<Rightarrow> nat \<Rightarrow> state \<Rightarrow> state" where
  "OpenTie staff layer note tie s =
     (let s1 = SetStartid tie (''#'' @ GetUuid s note) s;
          openTie = musicxml_OpenTie (GetN s1 staff) (GetN s1 layer) (GetPname s1 note) (GetOct s1 note)
      in s1\<lparr>m_tieStack := m_tieStack s1 @ [(tie, openTie)]\<rparr>)"

definition tie_match :: "state \<Rightarrow> nat \<Rightarrow> nat \<Rightarrow> nat \<Rightarrow> nat \<times> musicxml_OpenTie \<Rightarrow> bool" where
  "tie_match s staff layer note e =
     (tie_staffN (snd e) = GetN s staff \<and> tie_layerN (snd e) = GetN s layer
      \<and> tie_pname (snd e) = GetPname s note \<and> tie_oct (snd e) = GetOct s note)"

definition CloseTie :: "nat \<Rightarrow> nat \<Rightarrow> nat \<Rightarrow> bool \<Rightarrow> state \<Rightarrow> state" where
  "CloseTie staff layer note isClosingTie s =
     (case find (tie_match s staff layer note) (m_tieStack s) of
        None \<Rightarrow> s
      | Some e \<Rightarrow>
          let s1 = SetEndid (fst e) (''#'' @ GetUuid s note) s;
              s2 = s1\<lparr>m_tieStack := erase_first (tie_match s staff layer note) (m_tieStack s1)\<rparr>
          in if \<not> isClosingTie
             then LogWarning (''Closing tie for note '' @ quoted (GetUuid s2 note)
                    @ '' even though tie /tie[@type='' @ quoted ''stop''
                    @ ''] is missing in the MusicXML'') s2
             else s2)"

definition OpenSlur :: "nat \<Rightarrow> nat \<Rightarrow> int \<Rightarrow> nat \<Rightarrow> state \<Rightarrow> state" where
  "OpenSlur staff layer number slur s =
     (let s1 = SetStartid slur (m_ID s) s;
          openSlur = musicxml_OpenSlur (GetN s1 staff) (GetN s1 layer) number
      in s1\<lparr>m_slurStack := m_slurStack s1 @ [(slur, openSlur)]\<rparr>)"

definition slur_match :: "state \<Rightarrow> nat \<Rightarrow> nat \<Rightarrow> int \<Rightarrow> nat \<times> musicxml_OpenSlur \<Rightarrow> bool" where
  "slur_match s staff layer number e =
     (slur_staffN (snd e) = GetN s staff \<and> slur_layerN (snd e) = GetN s layer
      \<and> slur_number (snd e) = number)"

definition CloseSlur :: "nat \<Rightarrow> nat \<Rightarrow> int \<Rightarrow> nat \<Rightarrow> state \<Rightarrow> state" where
  "CloseSlur staff layer number element s =
     (case find (slur_match s staff layer number) (m_slurStack s) of
        None \<Rightarrow>
          LogWarning (''Closing slur for element '' @ quoted (GetUuid s element)
            @ '' could not be matched'') s
      | Some e \<Rightarrow>
          let s1 = SetEndid (fst e) (''#'' @ GetUuid s element) s
          in s1\<lparr>m_slurStack := erase_first (slur_match s staff layer number) (m_slurStack s1)\<rparr>)"

subsection \<open>A fresh importer\<close>

text \<open>Modelled from the spec: the class declaration (\<^verbatim>\<open>iomusxml.h\<close>) and the
  constructor of \<^verbatim>\<open>Doc\<close> are not part of the source file. A new importer over a
  destination document has empty pending lists and an empty element stack, and its
  measure-repeat flag is off; the document owns an empty score definition (the object at
  place 0 of the store) and no score buffer. The document type, the divisions and the
  meter count it starts with are parameters.\<close>

definition MusicXmlInput_new :: "DocType \<Rightarrow> int \<Rightarrow> int \<Rightarrow> state" where
  "MusicXmlInput_new ty ppq meter =
     \<lparr>objs = (\<lambda>_. empty_obj DOC [])(0 := empty_obj SCOREDEF (GenerateUuid 0)),
      next_obj = 1, warnings = [],
      m_doc = \<lparr>doc_type = ty, m_header = [], m_scoreDef = 0, m_scoreBuffer = None,
                pageBased = 0\<rparr>,
      m_ppq = ppq, m_durTotal = 0, m_meterCount = meter, m_mRpt = False, m_ID = [],
      m_elementStack = [], m_tieStack = [], m_slurStack = [], m_hairpinStack = [],
      m_dirStack = [], m_dynamStack = [], m_harmStack = [], m_octaveStack = [],
      m_pedalStack = [], m_tempoStack = [], m_controlElements = [], m_octDis = []\<rparr>"

subsection \<open>Sample states\<close>

text \<open>An element stack holding, from the bottom, a beam, a tuplet, a second beam and a
  chord.\<close>

definition stack_example :: state where
  "stack_example =
     (let (b1, s1) = new_obj BEAM (MusicXmlInput_new Raw 1 4);
          (t, s2) = new_obj TUPLET s1;
          (b2, s3) = new_obj BEAM s2;
          (c, s4) = new_obj CHORD s3
      in s4\<lparr>m_elementStack := [b1, t, b2, c]\<rparr>)"

subsection \<open>Layers, measures and filler\<close>

fun GetFirstParent_from :: "nat \<Rightarrow> state \<Rightarrow> nat \<Rightarrow> ClassId \<Rightarrow> nat option" where
  "GetFirstParent_from 0 s a c = None"
| "GetFirstParent_from (Suc k) s a c =
     (case parent (objs s a) of
        None \<Rightarrow> None
      | Some p \<Rightarrow> if Is s p c then Some p else GetFirstParent_from k s p c)"

text \<open>\<^verbatim>\<open>GetFirstParent\<close> climbs the parents until one of the class is met; the climb is
  bounded by the number of objects of the store.\<close>

definition GetFirstParent :: "state \<Rightarrow> nat \<Rightarrow> ClassId \<Rightarrow> nat option" where
  "GetFirstParent s a c = GetFirstParent_from (next_obj s) s a c"

text \<open>\<^verbatim>\<open>SelectLayer(int layerNum, Staff *staff)\<close>.\<close>

definition SelectLayer_layerNum :: "int \<Rightarrow> nat \<Rightarrow> state \<Rightarrow> nat \<times> state" where
  "SelectLayer_layerNum layerNum staff s =
     (let layer =
            (if layerNum = - 1
             then (if GetChildCount s staff > 0
                   then (case GetChild s staff 0 of
                           None \<Rightarrow> None
                         | Some k \<Rightarrow> if Is s k LAYER then Some k else None)
                   else None)
             else FindChildByN s staff LAYER layerNum);
          layerNum' = (if layerNum = - 1 then 1 else layerNum)
      in case layer of
           Some l \<Rightarrow> (l, s)
         | None \<Rightarrow>
             (let (l, s1) = new_obj LAYER s;
                  s2 = SetN l layerNum' s1;
                  s3 = AddChild staff l s2
              in (l, s3)))"

text \<open>\<^verbatim>\<open>SelectLayer(int staffNum, Measure *measure)\<close>; the \<^verbatim>\<open>assert(staff)\<close> fails
  when the measure has no such child or the child is not a staff.\<close>

definition SelectLayer_staffNum :: "int \<Rightarrow> nat \<Rightarrow> state \<Rightarrow> (nat \<times> state) option" where
  "SelectLayer_staffNum staffNum meas s =
     (case GetChild s meas (staffNum - 1) of
        None \<Rightarrow> None
      | Some staff \<Rightarrow>
          if Is s staff STAFF then Some (SelectLayer_layerNum (- 1) staff s) else None)"

text \<open>\<^verbatim>\<open>SelectLayer(pugi::xml_node node, Measure *measure)\<close>.\<close>

definition SelectLayer :: "xml_node \<Rightarrow> nat \<Rightarrow> state \<Rightarrow> (nat \<times> state) option" where
  "SelectLayer node meas s =
     (let staffNumStr = GetContentOfChild node [nm ''staff''];
          staffNum0 = (if staffNumStr \<noteq> [] then atoi staffNumStr else 1);
          bad = (staffNum0 < 1 \<or> staffNum0 > int (GetChildCount s meas));
          s1 = (if bad then LogWarning (''Staff '' @ to_string staffNum0 @ '' cannot be found'') s
                else s);
          staffNum = (if bad then 1 else staffNum0) - 1
      in case GetChild s1 meas staffNum of
           None \<Rightarrow> None
         | Some staff \<Rightarrow>
             if \<not> Is s1 staff STAFF then None
             else
               (let layerNumStr = GetContentOfChild node [nm ''voice''];
                    layerNum0 = (if layerNumStr \<noteq> [] then atoi layerNumStr else 1);
                    s2 = (if layerNum0 < 1
                          then LogWarning (''Staff '' @ to_string staffNum @ '' cannot be found'') s1
                          else s1);
                    layerNum = (if layerNum0 < 1 then 1 else layerNum0)
                in Some (SelectLayer_layerNum layerNum staff s2)))"

text \<open>
  \<^verbatim>\<open>FillSpace\<close>. The source computes \<^verbatim>\<open>quaters\<close> in single-precision floating
  point; the embedding computes it in exact rational arithmetic. The two agree whenever
  the quotient \<^verbatim>\<open>dur / m_ppq\<close> is a dyadic fraction that fits the significand (for
  instance 480 / 480, 240 / 480, 1440 / 480); elsewhere the embedding idealises the
  rounding. With \<^verbatim>\<open>m_ppq\<close> zero the quotient is infinite or undefined and its conversion
  to \<^verbatim>\<open>int\<close> has no defined result: \<open>None\<close>.
\<close>

definition FillSpace_quaters :: "int \<Rightarrow> int \<Rightarrow> rat" where
  "FillSpace_quaters ppq dur =
     (let q0 = of_int dur / of_int ppq;
          q1 = (if q0 > 1 then of_int (trunc q0) else q0)
      in if q1 > 2 then 2 else q1)"

definition FillSpace_rest :: "int \<Rightarrow> int \<Rightarrow> int" where
  "FillSpace_rest ppq dur = trunc (of_int dur - of_int ppq * FillSpace_quaters ppq dur)"

function FillSpace :: "nat \<Rightarrow> int \<Rightarrow> state \<Rightarrow> state option" where
  "FillSpace layer dur s =
     (if dur = 0 then Some s
      else if m_ppq s = 0 then None
      else
        (let quaters = FillSpace_quaters (m_ppq s) dur;
             durStr = to_string (trunc (4 / quaters));
             (space, s1) = new_obj SPACE s;
             s2 = SetDur space (StrToDuration durStr) s1;
             s3 = AddLayerElement layer space s2
         in FillSpace layer (FillSpace_rest (m_ppq s) dur) s3))"
  by pat_completeness auto
termination
proof (relation "measure (\<lambda>(layer, dur, s). nat \<bar>dur\<bar>)")
  show "wf (measure (\<lambda>(layer, dur, s). nat \<bar>dur\<bar>))" by simp
next
  fix layer :: nat and dur :: int and s x xa xb y xc xd :: state
  assume "dur \<noteq> 0" and "m_ppq s \<noteq> 0"
  define ppq where "ppq = m_ppq s"
  have assms: "dur \<noteq> 0" "ppq \<noteq> 0" by (simp_all add: ppq_def \<open>dur \<noteq> 0\<close> \<open>m_ppq s \<noteq> 0\<close>)
  define q0 :: rat where "q0 = of_int dur / of_int ppq"
  have "\<bar>FillSpace_rest ppq dur\<bar> < \<bar>dur\<bar>"
  proof (cases "q0 > 1")
    case False
    then have "FillSpace_quaters ppq dur = q0"
      by (simp add: FillSpace_quaters_def q0_def Let_def)
    then have "of_int ppq * FillSpace_quaters ppq dur = (of_int dur :: rat)"
      using assms by (simp add: q0_def)
    then show ?thesis using assms by (simp add: FillSpace_rest_def trunc_def)
  next
    case True
    define k :: int where "k = (if \<lfloor>q0\<rfloor> > 2 then 2 else \<lfloor>q0\<rfloor>)"
    have fl: "1 \<le> \<lfloor>q0\<rfloor>" using True by (simp add: le_floor_iff)
    have q: "FillSpace_quaters ppq dur = of_int k"
      using True fl
      by (auto simp add: FillSpace_quaters_def q0_def [symmetric] Let_def trunc_def k_def)
    have k12: "1 \<le> k" "k \<le> \<lfloor>q0\<rfloor>" using fl by (auto simp: k_def)
    have r: "FillSpace_rest ppq dur = dur - ppq * k"
    proof -
      have "(of_int dur - of_int ppq * of_int k :: rat) = of_int (dur - ppq * k)" by simp
      then show ?thesis
        unfolding FillSpace_rest_def q trunc_def by (simp del: of_int_diff of_int_mult)
    qed
    have kq: "(of_int k :: rat) \<le> q0" using k12 by (meson le_floor_iff order_refl)
    show ?thesis
    proof (cases "ppq > 0")
      case True
      then have "(of_int k :: rat) * of_int ppq \<le> of_int dur"
        using kq by (simp add: q0_def pos_le_divide_eq)
      then have a: "ppq * k \<le> dur" by (metis of_int_le_iff of_int_mult mult.commute)
      have b: "ppq * 1 \<le> ppq * k" using k12 True by (intro mult_left_mono) auto
      show ?thesis unfolding r using a b True by linarith
    next
      case False
      then have neg: "ppq < 0" using assms by simp
      then have "(of_int dur :: rat) \<le> of_int k * of_int ppq"
        using kq by (simp add: q0_def neg_le_divide_eq)
      then have a: "dur \<le> ppq * k" by (metis of_int_le_iff of_int_mult mult.commute)
      have b: "ppq * k \<le> ppq * 1" using k12 neg by (intro mult_left_mono_neg) auto
      show ?thesis unfolding r using a b neg by linarith
    qed
  qed
  then show "((layer, FillSpace_rest (m_ppq s) dur, xd), layer, dur, s)
      \<in> measure (\<lambda>(layer, dur, s). nat \<bar>dur\<bar>)"
    by (simp add: ppq_def)
qed

declare FillSpace.simps [simp del]

text \<open>\<^verbatim>\<open>AddMeasure\<close>. When the section already has a measure at the index, the staves of
  the new measure are handed over to it, one by one.\<close>

fun AddMeasure_move :: "nat \<Rightarrow> nat list \<Rightarrow> state \<Rightarrow> state option" where
  "AddMeasure_move existingMeasure [] s = Some s"
| "AddMeasure_move existingMeasure (current # others) s =
     (if \<not> Is s current STAFF then None
      else AddMeasure_move existingMeasure others
             (AddChild existingMeasure current (Relinquish current s)))"

definition AddMeasure :: "nat \<Rightarrow> nat \<Rightarrow> int \<Rightarrow> state \<Rightarrow> state option" where
  "AddMeasure sect meas i s =
     (let count = int (length (filter (\<lambda>k. Is s k MEASURE) (children (objs s sect))))
      in if i < 0 then None
         else if i = count then Some (AddChild sect meas s)
         else if count > i then
           (case GetChild s sect i of
              None \<Rightarrow> None
            | Some existingMeasure \<Rightarrow>
                if \<not> Is s existingMeasure MEASURE then None
                else AddMeasure_move existingMeasure (children (objs s meas)) s)
         else Some (LogWarning ''measures should be added in the right order'' s))"

subsection \<open>Text rendering\<close>

fun TextRendition :: "xml_node list \<Rightarrow> nat \<Rightarrow> state \<Rightarrow> state" where
  "TextRendition [] element s = s"
| "TextRendition (textNode # ws) element s =
     (let (textObj, s1) = new_obj TEXT s
      in if GetAttributeValue textNode ''color'' \<noteq> []
            \<or> GetAttributeValue textNode ''font-family'' \<noteq> []
            \<or> GetAttributeValue textNode ''font-style'' \<noteq> []
            \<or> GetAttributeValue textNode ''font-weight'' \<noteq> []
         then
           (let (rend, s2) = new_obj REND s1;
                s3 = AddChild rend textObj s2;
                s4 = AddChild element rend s3
            in TextRendition ws element s4)
         else TextRendition ws element (AddChild element textObj s1))"

definition PrintMetronome :: "xml_node \<Rightarrow> nat \<Rightarrow> state \<Rightarrow> state" where
  "PrintMetronome metronome tempo s =
     (let s1 = (case select_single_node metronome [nm ''beat-unit''] of
                  None \<Rightarrow> s
                | Some bu \<Rightarrow> LogWarnings (snd (ConvertTypeToDur (GetContent bu))) s);
          (textObj, s2) = new_obj TEXT s1
      in AddChild tempo textObj s2)"

subsection \<open>Parsing methods: the children of a measure\<close>

definition push_control :: "int \<Rightarrow> nat \<Rightarrow> state \<Rightarrow> state" where
  "push_control measureNum a s = s\<lparr>m_controlElements := m_controlElements s @ [(measureNum, a)]\<rparr>"

text \<open>Division of C's \<^verbatim>\<open>int\<close> by a positive number: the quotient is truncated towards
  zero.\<close>

definition c_div :: "int \<Rightarrow> int \<Rightarrow> int" where
  "c_div a b = (if 0 \<le> a then a div b else - ((- a) div b))"

text \<open>Reading and writing \<^verbatim>\<open>m_octDis[i]\<close>; an index outside the vector has no defined
  behaviour.\<close>

definition octDis_get :: "state \<Rightarrow> int \<Rightarrow> int option" where
  "octDis_get s i = (if 0 \<le> i \<and> nat i < length (m_octDis s) then Some (m_octDis s ! nat i) else None)"

definition octDis_set :: "int \<Rightarrow> int \<Rightarrow> state \<Rightarrow> state option" where
  "octDis_set i v s =
     (if 0 \<le> i \<and> nat i < length (m_octDis s) then Some (s\<lparr>m_octDis := (m_octDis s)[nat i := v]\<rparr>)
      else None)"

definition ReadMusicXmlAttributes :: "xml_node \<Rightarrow> nat \<Rightarrow> int \<Rightarrow> state \<Rightarrow> state option" where
  "ReadMusicXmlAttributes node meas measureNum s =
     do {
       s1 \<leftarrow> (case select_single_node node [nm ''clef''] of
                None \<Rightarrow> Some s
              | Some clef \<Rightarrow>
                  (let numberStr = GetAttributeValue clef ''number'';
                       staffNum = (if numberStr = [] then 1 else atoi numberStr)
                   in case SelectLayer_staffNum staffNum meas s of
                        None \<Rightarrow> None
                      | Some (layer, sa) \<Rightarrow>
                          if has_node clef [nm ''sign''] \<and> has_node clef [nm ''line'']
                          then (let (meiClef, sb) = new_obj CLEF sa
                                in Some (AddLayerElement layer meiClef sb))
                          else Some sa));
       Some (case select_single_node node [nm ''measure-style'', nm ''measure-repeat''] of
               None \<Rightarrow> s1
             | Some measureRepeat \<Rightarrow>
                 s1\<lparr>m_mRpt := (GetAttributeValue measureRepeat ''type'' = ''start'')\<rparr>)
     }"

definition ReadMusicXmlBackup ::
  "xml_node \<Rightarrow> xml_node list \<Rightarrow> nat \<Rightarrow> int \<Rightarrow> state \<Rightarrow> state option" where
  "ReadMusicXmlBackup node after meas measureNum s =
     (let s1 = s\<lparr>m_durTotal := m_durTotal s - atoi (GetContentOfChild node [nm ''duration''])\<rparr>
      in case sibling_named ''note'' after of
           None \<Rightarrow> Some s1
         | Some nextNote \<Rightarrow>
             if m_durTotal s1 > 0 then
               (let (layer0, s2) = new_obj LAYER s1
                in if \<not> has_node node [nm ''voice'']
                   then (case SelectLayer nextNote meas s2 of
                           None \<Rightarrow> None
                         | Some (layer, s3) \<Rightarrow> FillSpace layer (m_durTotal s3) s3)
                   else FillSpace layer0 (m_durTotal s2) s2)
             else Some s1)"

definition ReadMusicXmlBarLine :: "xml_node \<Rightarrow> nat \<Rightarrow> int \<Rightarrow> state \<Rightarrow> state option" where
  "ReadMusicXmlBarLine node meas measureNum s =
     (case GetChild s meas 0 of
        None \<Rightarrow> None
      | Some staff \<Rightarrow>
          if \<not> Is s staff STAFF then None
          else
            (let barStyle = GetContentOfChild node [nm ''bar-style''];
                 repeat = has_node node [nm ''repeat''];
                 s1 = (if barStyle \<noteq> [] then
                         (let sa = LogWarnings (snd (ConvertStyleToRend barStyle repeat)) s
                          in if HasAttributeWithValue node ''location'' ''left'' then sa
                             else if HasAttributeWithValue node ''location'' ''middle''
                             then LogWarning (''Unsupported barline location '' @ quoted ''middle'') sa
                             else sa)
                       else s);
                 s2 = (if has_node node [nm ''ending'']
                       then LogWarning ''Endings not supported'' s1 else s1)
             in case select_single_node node [nm ''fermata''] of
                  None \<Rightarrow> Some s2
                | Some xmlFermata \<Rightarrow>
                    (let (fermata, s3) = new_obj FERMATA s2;
                         s4 = push_control measureNum fermata s3;
                         s5 = (if HasAttributeWithValue node ''location'' ''left'' then s4
                               else if HasAttributeWithValue node ''location'' ''middle''
                               then LogWarning (''Unsupported barline location '' @ quoted ''middle'') s4
                               else s4)
                     in Some (SetStaff fermata [GetN s5 staff] s5))))"

text \<open>\<^verbatim>\<open>ReadMusicXmlDirection\<close>, in the order of the source: directive, dynamics,
  hairpin, ottava, pedal, tempo, and the warning for anything else. Closing a hairpin
  returns from the whole function.\<close>

definition Direction_directive ::
  "xml_node \<Rightarrow> xml_node list \<Rightarrow> int \<Rightarrow> state \<Rightarrow> state" where
  "Direction_directive node words measureNum s =
     (if words \<noteq> [] \<and> \<not> has_node node [Child ''sound'' [HasAttr ''tempo'']] then
        (let (dir, s1) = new_obj DIR s;
             s2 = TextRendition words dir s1;
             s3 = push_control measureNum dir s2
         in s3\<lparr>m_dirStack := m_dirStack s3 @ [dir]\<rparr>)
      else s)"

definition Direction_dynamics :: "xml_node option \<Rightarrow> int \<Rightarrow> state \<Rightarrow> state" where
  "Direction_dynamics dynam measureNum s =
     (case dynam of
        None \<Rightarrow> s
      | Some d \<Rightarrow>
          (let (dynamObj, s1) = new_obj DYNAM s;
               (textObj, s2) = new_obj TEXT s1;
               s3 = AddChild dynamObj textObj s2;
               s4 = push_control measureNum dynamObj s3
           in s4\<lparr>m_dynamStack := m_dynamStack s4 @ [dynamObj]\<rparr>))"

definition Direction_hairpin :: "xml_node option \<Rightarrow> int \<Rightarrow> state \<Rightarrow> bool \<times> state" where
  "Direction_hairpin wedge measureNum s =
     (case wedge of
        None \<Rightarrow> (False, s)
      | Some w \<Rightarrow>
          (let n0 = atoi (GetAttributeValue w ''number'');
               hairpinNumber = (if n0 < 1 then 1 else n0)
           in if HasAttributeWithValue w ''type'' ''stop'' then
                (case find (\<lambda>e. hairpin_dirN (snd e) = hairpinNumber) (m_hairpinStack s) of
                   None \<Rightarrow> (False, s)
                 | Some e \<Rightarrow>
                     (let s1 = SetEndid (fst e) (hairpin_endID (snd e)) s
                      in (True,
                          s1\<lparr>m_hairpinStack :=
                               erase_first (\<lambda>e. hairpin_dirN (snd e) = hairpinNumber)
                                 (m_hairpinStack s1)\<rparr>)))
              else
                (let (hairpin, s1) = new_obj HAIRPIN s;
                     s2 = push_control measureNum hairpin s1
                 in (False,
                     s2\<lparr>m_hairpinStack :=
                          m_hairpinStack s2 @ [(hairpin, musicxml_OpenHairpin hairpinNumber [])]\<rparr>))))"

definition octave_stop :: "int \<Rightarrow> nat \<Rightarrow> state \<Rightarrow> state" where
  "octave_stop staffN a s =
     (if Is s a OCTAVE \<and> staffN \<in> set (att_staff (objs s a)) \<and> att_endid (objs s a) = []
      then SetEndid a (m_ID s) s else s)"

definition Direction_ottava ::
  "xml_node \<Rightarrow> xml_node option \<Rightarrow> string \<Rightarrow> int \<Rightarrow> state \<Rightarrow> state option" where
  "Direction_ottava node xmlShift placeStr measureNum s =
     (case xmlShift of
        None \<Rightarrow> Some s
      | Some sh \<Rightarrow>
          (let staffN = (case select_single_node node [nm ''staff''] of
                           None \<Rightarrow> 1
                         | Some staffNode \<Rightarrow> atoi (GetContent staffNode))
           in if HasAttributeWithValue sh ''type'' ''stop'' then
                do {
                  s1 \<leftarrow> octDis_set staffN 0 s;
                  Some (fold (octave_stop staffN) (map snd (m_controlElements s1)) s1)
                }
              else
                (let (octave, s1) = new_obj OCTAVE s;
                     s2 = (if placeStr \<noteq> []
                           then SetDisPlace octave
                                  (if placeStr = ''above'' then PLACE_above
                                   else if placeStr = ''below'' then PLACE_below
                                   else PLACE_NONE) s1
                           else s1);
                     s3 = SetStaff octave [staffN] s2
                 in do {
                      s4 \<leftarrow> octDis_set staffN
                              (c_div (atoi (GetAttributeValue sh ''size'') + 2) 8) s3;
                      s5 \<leftarrow> (if HasAttributeWithValue sh ''type'' ''down''
                              then do {
                                     d \<leftarrow> octDis_get s4 staffN;
                                     octDis_set staffN (- 1 * d) (SetDisPlace octave PLACE_below s4)
                                   }
                              else Some (SetDisPlace octave PLACE_above s4));
                      let s6 = push_control measureNum octave s5;
                      Some (s6\<lparr>m_octaveStack := m_octaveStack s6 @ [octave]\<rparr>)
                    })))"

definition Direction_pedal :: "xml_node option \<Rightarrow> int \<Rightarrow> state \<Rightarrow> state" where
  "Direction_pedal xmlPedal measureNum s =
     (case xmlPedal of
        None \<Rightarrow> s
      | Some p \<Rightarrow>
          (let (pedal, s1) = new_obj PEDAL s;
               pedalType = GetAttributeValue p ''type'';
               s2 = (if pedalType \<noteq> [] then LogWarnings (snd (ConvertPedalTypeToDir pedalType)) s1
                     else s1);
               s3 = (if pedalType = ''stop'' then SetStartid pedal (m_ID s2) s2 else s2);
               s4 = push_control measureNum pedal s3
           in s4\<lparr>m_pedalStack := m_pedalStack s4 @ [pedal]\<rparr>))"

definition Direction_tempo ::
  "xml_node \<Rightarrow> xml_node list \<Rightarrow> xml_node option \<Rightarrow> int \<Rightarrow> state \<Rightarrow> state" where
  "Direction_tempo node words metronome measureNum s =
     (if has_node node [Child ''sound'' [HasAttr ''tempo'']] \<or> metronome \<noteq> None then
        (let (tempo, s1) = new_obj TEMPO s;
             s2 = (if words \<noteq> [] then TextRendition words tempo s1 else s1);
             s3 = (case metronome of None \<Rightarrow> s2 | Some m \<Rightarrow> PrintMetronome m tempo s2);
             s4 = push_control measureNum tempo s3
         in s4\<lparr>m_tempoStack := m_tempoStack s4 @ [tempo]\<rparr>)
      else s)"

definition ReadMusicXmlDirection :: "xml_node \<Rightarrow> nat \<Rightarrow> int \<Rightarrow> state \<Rightarrow> state option" where
  "ReadMusicXmlDirection node meas measureNum s =
     (let dtype = select_single_node node [nm ''direction-type''];
          sub = (\<lambda>name. case dtype of None \<Rightarrow> None | Some t \<Rightarrow> select_single_node t [nm name]);
          placeStr = GetAttributeValue node ''placement'';
          words = (case dtype of None \<Rightarrow> [] | Some t \<Rightarrow> select_nodes t [nm ''words'']);
          s1 = Direction_directive node words measureNum s;
          dynam = sub ''dynamics'';
          s2 = Direction_dynamics dynam measureNum s1;
          wedge = sub ''wedge'';
          (returned, s3) = Direction_hairpin wedge measureNum s2
      in if returned then Some s3
         else
           (let xmlShift = sub ''octave-shift''
            in do {
                 s4 \<leftarrow> Direction_ottava node xmlShift placeStr measureNum s3;
                 let xmlPedal = sub ''pedal'';
                 let s5 = Direction_pedal xmlPedal measureNum s4;
                 let metronome = sub ''metronome'';
                 let s6 = Direction_tempo node words metronome measureNum s5;
                 Some (if words = [] \<and> dynam = None \<and> metronome = None \<and> xmlShift = None
                         \<and> xmlPedal = None \<and> wedge = None
                       then LogWarning (''Unsupported direction-type ''
                              @ quoted (case dtype of
                                          None \<Rightarrow> []
                                        | Some t \<Rightarrow> (case node_children t of
                                                       [] \<Rightarrow> [] | c # _ \<Rightarrow> node_name c))) s6
                       else s6)
               }))"

definition ReadMusicXmlForward ::
  "xml_node list \<Rightarrow> xml_node \<Rightarrow> xml_node list \<Rightarrow> nat \<Rightarrow> int \<Rightarrow> state \<Rightarrow> state option" where
  "ReadMusicXmlForward prev node after meas measureNum s =
     (let s1 = s\<lparr>m_durTotal := m_durTotal s + atoi (GetContentOfChild node [nm ''duration''])\<rparr>
      in case SelectLayer node meas s1 of
           None \<Rightarrow> None
         | Some (layer, s2) \<Rightarrow>
             (case sibling_named ''note'' after of
                Some nextNote \<Rightarrow>
                  if \<not> has_node node [nm ''voice'']
                  then (case SelectLayer nextNote meas s2 of
                          None \<Rightarrow> None
                        | Some (layer', s3) \<Rightarrow>
                            FillSpace layer' (atoi (GetContentOfChild node [nm ''duration''])) s3)
                  else FillSpace layer (atoi (GetContentOfChild node [nm ''duration''])) s2
              | None \<Rightarrow>
                  if sibling_named ''note'' prev = None \<and> sibling_named ''backup'' prev = None
                  then
                    (let (mRest, s3) = new_obj MREST s2;
                         s4 = SetVisible mRest BOOLEAN_false s3
                     in Some (AddLayerElement layer mRest s4))
                  else Some s2))"

definition ReadMusicXmlHarmony :: "xml_node \<Rightarrow> nat \<Rightarrow> int \<Rightarrow> state \<Rightarrow> state option" where
  "ReadMusicXmlHarmony node meas measureNum s =
     (let (harm, s1) = new_obj HARM s;
          (textObj, s2) = new_obj TEXT s1;
          s3 = AddChild harm textObj s2;
          s4 = push_control measureNum harm s3
      in Some (s4\<lparr>m_harmStack := m_harmStack s4 @ [harm]\<rparr>))"

definition ReadMusicXmlPrint :: "xml_node \<Rightarrow> nat \<Rightarrow> int \<Rightarrow> state \<Rightarrow> state option" where
  "ReadMusicXmlPrint node meas measureNum s = Some s"

subsection \<open>Parsing methods: a note\<close>

text \<open>A new container is added to the layer or to the innermost open container, and
  pushed.\<close>

definition push_container :: "ClassId \<Rightarrow> nat \<Rightarrow> state \<Rightarrow> nat \<times> state" where
  "push_container c layer s =
     (let (a, s1) = new_obj c s;
          s2 = AddLayerElement layer a s1
      in (a, s2\<lparr>m_elementStack := m_elementStack s2 @ [a]\<rparr>))"

definition Note_tremolo_start :: "xml_node option \<Rightarrow> nat \<Rightarrow> state \<Rightarrow> state" where
  "Note_tremolo_start tremolo layer s =
     (case tremolo of
        None \<Rightarrow> s
      | Some t \<Rightarrow>
          if HasAttributeWithValue t ''type'' ''single'' then snd (push_container BTREM layer s)
          else if HasAttributeWithValue t ''type'' ''start'' then snd (push_container FTREM layer s)
          else s)"

definition Note_tremSlashNum :: "xml_node option \<Rightarrow> string" where
  "Note_tremSlashNum tremolo =
     (case tremolo of
        None \<Rightarrow> ''0''
      | Some t \<Rightarrow> if HasAttributeWithValue t ''type'' ''single'' then GetContent t else ''0'')"

definition Note_beam_start :: "xml_node \<Rightarrow> nat \<Rightarrow> state \<Rightarrow> state" where
  "Note_beam_start node layer s =
     (if has_node node [Child ''beam'' [AttrEq ''number'' ''1'', TextEq ''begin'']]
      then snd (push_container BEAM layer s) else s)"

definition Note_tuplet_start :: "xml_node option \<Rightarrow> nat \<Rightarrow> state \<Rightarrow> state" where
  "Note_tuplet_start notations layer s =
     (case notations of
        None \<Rightarrow> s
      | Some n \<Rightarrow>
          if has_node n [Child ''tuplet'' [AttrEq ''type'' ''start'']]
          then snd (push_container TUPLET layer s) else s)"

text \<open>The rest branch: an invisible space, a measure rest or a rest.\<close>

definition Note_rest ::
  "xml_node \<Rightarrow> xml_node \<Rightarrow> nat \<Rightarrow> bool \<Rightarrow> string \<Rightarrow> int \<Rightarrow> state \<Rightarrow> nat \<times> state" where
  "Note_rest node restNode layer cue typeStr dots s =
     (let stepStr = GetContentOfChild restNode [nm ''display-step''];
          octaveStr = GetContentOfChild restNode [nm ''display-octave'']
      in if HasAttributeWithValue node ''print-object'' ''no'' then
           (let (space, s1) = new_obj SPACE s;
                (d, w) = ConvertTypeToDur typeStr;
                s2 = SetDur space d (LogWarnings w s1)
            in (space, AddLayerElement layer space s2))
         else if typeStr = [] \<or> HasAttributeWithValue restNode ''measure'' ''yes'' then
           (let (mRest, s1) = new_obj MREST s;
                s2 = (if cue then SetSizeCue mRest s1 else s1);
                s3 = (if stepStr \<noteq> [] then LogWarnings (snd (ConvertStepToPitchName stepStr)) s2
                      else s2)
            in (mRest, AddLayerElement layer mRest s3))
         else
           (let (rest, s1) = new_obj REST s;
                (d, w) = ConvertTypeToDur typeStr;
                s2 = SetDur rest d (LogWarnings w s1);
                s3 = (if dots > 0 then SetDots rest dots s2 else s2);
                s4 = (if cue then SetSizeCue rest s3 else s3);
                s5 = (if stepStr \<noteq> [] then LogWarnings (snd (ConvertStepToPitchName stepStr)) s4
                      else s4)
            in (rest, AddLayerElement layer rest s5)))"

text \<open>The pitched branch, in the order of the source. The accidental implied by
  \<^verbatim>\<open>alter\<close> is a child of the note as in the source; the elements keep no
  accidental value in this model, so only the warning of its conversion is recorded.\<close>

definition Note_accidental :: "xml_node \<Rightarrow> nat \<Rightarrow> state \<Rightarrow> state" where
  "Note_accidental node note s =
     (case select_single_node node [nm ''accidental''] of
        None \<Rightarrow> s
      | Some accidental \<Rightarrow>
          (let (accid, s1) = new_obj ACCID s;
               s2 = LogWarnings (snd (ConvertAccidentalToAccid (GetContent accidental))) s1
           in AddChild note accid s2))"

definition Note_stemDir :: "xml_node \<Rightarrow> data_STEMDIRECTION" where
  "Note_stemDir node =
     (let stemDirStr = GetContentOfChild node [nm ''stem'']
      in if stemDirStr = ''down'' then STEMDIRECTION_down
         else if stemDirStr = ''up'' then STEMDIRECTION_up
         else STEMDIRECTION_NONE)"

definition Note_pitch :: "xml_node \<Rightarrow> nat \<Rightarrow> nat \<Rightarrow> state \<Rightarrow> state option" where
  "Note_pitch node staff note s =
     (case select_single_node node [nm ''pitch''] of
        None \<Rightarrow> Some s
      | Some pitch \<Rightarrow>
          (let stepStr = GetContentOfChild pitch [nm ''step''];
               s1 = (if stepStr \<noteq> []
                     then (let (p, w) = ConvertStepToPitchName stepStr
                           in SetPname note p (LogWarnings w s))
                     else s);
               octaveStr = GetContentOfChild pitch [nm ''octave'']
           in do {
                s2 \<leftarrow> (if octaveStr \<noteq> [] then
                          do {
                            d \<leftarrow> octDis_get s1 (GetN s1 staff);
                            Some (if d \<noteq> 0
                                  then SetOctGes note (atoi octaveStr)
                                         (SetOct note (atoi octaveStr + d) s1)
                                  else SetOct note (atoi octaveStr) s1)
                          }
                        else Some s1);
                let alterStr = GetContentOfChild pitch [nm ''alter''];
                Some (if \<not> has_node node [nm ''accidental''] \<and> alterStr \<noteq> [] then
                        (let s3 = (case GetFirst s2 note ACCID of
                                     Some accid \<Rightarrow> s2
                                   | None \<Rightarrow> (let (accid, s3) = new_obj ACCID s2
                                               in AddChild note accid s3))
                         in LogWarnings (snd (ConvertAlterToAccid (atof alterStr))) s3)
                      else s2)
              }))"

definition in_chord :: "state \<Rightarrow> bool" where
  "in_chord s = (m_elementStack s \<noteq> [] \<and> Is s (last (m_elementStack s)) CHORD)"

definition Note_chord_start ::
  "bool \<Rightarrow> nat \<Rightarrow> nat \<Rightarrow> string \<Rightarrow> int \<Rightarrow> data_STEMDIRECTION \<Rightarrow> bool \<Rightarrow> string \<Rightarrow> state
    \<Rightarrow> nat \<times> state" where
  "Note_chord_start nextIsChord layer note typeStr dots stemDir cue tremSlashNum s =
     (if nextIsChord \<and> \<not> in_chord s then
        (let (chord, s1) = new_obj CHORD s;
             (d, w) = ConvertTypeToDur typeStr;
             s2 = SetDur chord d (LogWarnings w s1);
             s3 = (if dots > 0 then SetDots chord dots s2 else s2);
             s4 = SetStemDir chord stemDir s3;
             s5 = (if cue then SetSizeCue chord s4 else s4);
             s6 = (if tremSlashNum \<noteq> ''0'' then SetStemMod chord (tremSlashNum @ ''slash'') s5
                   else s5);
             s7 = AddLayerElement layer chord s6
         in (chord, s7\<lparr>m_elementStack := m_elementStack s7 @ [chord]\<rparr>))
      else (note, s))"

definition Note_grace :: "xml_node \<Rightarrow> nat \<Rightarrow> state \<Rightarrow> state" where
  "Note_grace node note s =
     (case select_single_node node [nm ''grace''] of
        None \<Rightarrow> s
      | Some grace \<Rightarrow>
          (let slashStr = GetAttributeValue grace ''slash''
           in if slashStr = ''no'' then SetGrace note GRACE_acc s
              else if slashStr = ''yes''
              then SetStemMod note ''1slash'' (SetGrace note GRACE_unacc s)
              else SetGrace note GRACE_unknown s))"

definition Note_attributes ::
  "nat \<Rightarrow> string \<Rightarrow> int \<Rightarrow> data_STEMDIRECTION \<Rightarrow> bool \<Rightarrow> string \<Rightarrow> state \<Rightarrow> state" where
  "Note_attributes note typeStr dots stemDir cue tremSlashNum s =
     (if \<not> in_chord s then
        (let (d, w) = ConvertTypeToDur typeStr;
             s1 = SetDur note d (LogWarnings w s);
             s2 = (if dots > 0 then SetDots note dots s1 else s1);
             s3 = SetStemDir note stemDir s2;
             s4 = (if cue then SetSizeCue note s3 else s3)
         in if tremSlashNum \<noteq> ''0'' then SetStemMod note (tremSlashNum @ ''slash'') s4 else s4)
      else s)"

fun Note_syls :: "xml_node list \<Rightarrow> nat \<Rightarrow> state \<Rightarrow> state" where
  "Note_syls [] verse s = s"
| "Note_syls (textNode # ts) verse s =
     (let (syl, s1) = new_obj SYL s;
          (textObj, s2) = new_obj TEXT s1;
          s3 = AddChild syl textObj s2;
          s4 = AddChild verse syl s3
      in Note_syls ts verse s4)"

fun Note_lyrics :: "xml_node list \<Rightarrow> nat \<Rightarrow> state \<Rightarrow> state" where
  "Note_lyrics [] note s = s"
| "Note_lyrics (lyric # ls) note s =
     (let n0 = atoi (GetAttributeValue lyric ''number'');
          lyricNumber = (if n0 < 1 then 1 else n0);
          (verse, s1) = new_obj VERSE s;
          s2 = SetN verse lyricNumber s1;
          s3 = (if GetAttributeValue lyric ''print-object'' \<noteq> ''no''
                then Note_syls (select_nodes lyric [nm ''text'']) verse s2 else s2);
          s4 = AddChild note verse s3
      in Note_lyrics ls note s4)"

definition Note_ties ::
  "xml_node option \<Rightarrow> nat \<Rightarrow> nat \<Rightarrow> nat \<Rightarrow> int \<Rightarrow> state \<Rightarrow> state" where
  "Note_ties notations staff layer note measureNum s =
     (let startTie = (case notations of
                        None \<Rightarrow> None
                      | Some n \<Rightarrow> select_single_node n [Child ''tied'' [AttrEq ''type'' ''start'']]);
          endTie = (case notations of
                      None \<Rightarrow> None
                    | Some n \<Rightarrow> select_single_node n [Child ''tied'' [AttrEq ''type'' ''stop'']]);
          s1 = CloseTie staff layer note (endTie \<noteq> None) s
      in case startTie of
           None \<Rightarrow> s1
         | Some st \<Rightarrow>
             (let (tie, s2) = new_obj TIE s1;
                  s3 = SetCurvedir tie
                         (fst (ConvertOrientationToCurvedir (GetAttributeValue st ''orientation''))) s2;
                  s4 = (if GetAttributeValue st ''placement'' \<noteq> []
                        then SetCurvedir tie
                               (if GetAttributeValue st ''placement'' = ''above''
                                then curvature_CURVEDIR_above
                                else if GetAttributeValue st ''placement'' = ''below''
                                then curvature_CURVEDIR_below
                                else curvature_CURVEDIR_NONE) s3
                        else s3);
                  s5 = push_control measureNum tie s4
              in OpenTie staff layer note tie s5))"

fun Note_artics :: "xml_node list \<Rightarrow> nat \<Rightarrow> state \<Rightarrow> state" where
  "Note_artics [] element s = s"
| "Note_artics (a # more_artics) element s =
     (let (artic, s1) = new_obj ARTIC s
      in Note_artics more_artics element (AddChild element artic s1))"

definition Note_chord_end :: "bool \<Rightarrow> state \<Rightarrow> state" where
  "Note_chord_end nextIsChord s =
     (if \<not> nextIsChord \<and> in_chord s then RemoveLastFromStack CHORD s else s)"

definition Note_pitched ::
  "xml_node \<Rightarrow> xml_node list \<Rightarrow> xml_node option \<Rightarrow> nat \<Rightarrow> nat \<Rightarrow> bool \<Rightarrow> string \<Rightarrow> int
    \<Rightarrow> string \<Rightarrow> int \<Rightarrow> state \<Rightarrow> (nat \<times> state) option" where
  "Note_pitched node after notations layer staff cue typeStr dots tremSlashNum measureNum s =
     (let (note, s1) = new_obj NOTE s;
          s2 = SetVisible note (fst (ConvertWordToBool (GetAttributeValue node ''print-object''))) s1;
          s3 = Note_accidental node note s2;
          stemDir = Note_stemDir node
      in do {
           s4 \<leftarrow> Note_pitch node staff note s3;
           let nextIsChord = (case sibling_named ''note'' after of
                                None \<Rightarrow> False
                              | Some nextNote \<Rightarrow> has_node nextNote [nm ''chord'']);
           let (element, s5) =
                 Note_chord_start nextIsChord layer note typeStr dots stemDir cue tremSlashNum s4;
           let s6 = Note_grace node note s5;
           let s7 = Note_attributes note typeStr dots stemDir cue tremSlashNum s6;
           let s8 = Note_lyrics (select_nodes node [nm ''lyric'']) note s7;
           let s9 = Note_ties notations staff layer note measureNum s8;
           let s10 = Note_artics
                       (case notations of None \<Rightarrow> [] | Some n \<Rightarrow> select_nodes n [nm ''articulations''])
                       element s9;
           let s11 = Note_artics
                       (case notations of None \<Rightarrow> [] | Some n \<Rightarrow> select_nodes n [nm ''technical''])
                       element s10;
           let s12 = AddLayerElement layer note s11;
           Some (element, Note_chord_end nextIsChord s12)
         })"

text \<open>After the element is built: the control elements that start on it, the slurs, the
  ends of the open containers, and the start references of everything that waits for the
  next note.\<close>

definition Note_ornament :: "ClassId \<Rightarrow> bool \<Rightarrow> nat \<Rightarrow> int \<Rightarrow> state \<Rightarrow> state" where
  "Note_ornament c present staff measureNum s =
     (if present then
        (let (a, s1) = new_obj c s;
             s2 = push_control measureNum a s1;
             s3 = SetStaff a [GetN s2 staff] s2
         in SetStartid a (m_ID s3) s3)
      else s)"

definition Note_dynamics :: "bool \<Rightarrow> nat \<Rightarrow> int \<Rightarrow> state \<Rightarrow> state" where
  "Note_dynamics present staff measureNum s =
     (if present then
        (let (dynam, s1) = new_obj DYNAM s;
             s2 = push_control measureNum dynam s1;
             s3 = SetStaff dynam [GetN s2 staff] s2;
             s4 = SetStartid dynam (m_ID s3) s3;
             (textObj, s5) = new_obj TEXT s4
         in AddChild dynam textObj s5)
      else s)"

fun Note_slurs :: "xml_node list \<Rightarrow> nat \<Rightarrow> nat \<Rightarrow> nat \<Rightarrow> int \<Rightarrow> state \<Rightarrow> state" where
  "Note_slurs [] staff layer element measureNum s = s"
| "Note_slurs (slur # more_slurs) staff layer element measureNum s =
     (let n0 = atoi (GetAttributeValue slur ''number'');
          slurNumber = (if n0 < 1 then 1 else n0);
          s' = (if HasAttributeWithValue slur ''type'' ''start'' then
                  (let (meiSlur, s1) = new_obj SLUR s;
                       s2 = SetCurvedir meiSlur
                              (fst (ConvertOrientationToCurvedir
                                      (GetAttributeValue slur ''orientation''))) s1;
                       s3 = (if GetAttributeValue slur ''placement'' \<noteq> []
                             then SetCurvedir meiSlur
                                    (if GetAttributeValue slur ''placement'' = ''above''
                                     then curvature_CURVEDIR_above
                                     else if GetAttributeValue slur ''placement'' = ''below''
                                     then curvature_CURVEDIR_below
                                     else curvature_CURVEDIR_NONE) s2
                             else s2);
                       s4 = push_control measureNum meiSlur s3
                   in OpenSlur staff layer slurNumber meiSlur s4)
                else if HasAttributeWithValue slur ''type'' ''stop''
                then CloseSlur staff layer slurNumber element s
                else s)
      in Note_slurs more_slurs staff layer element measureNum s')"

definition Note_ends :: "xml_node \<Rightarrow> xml_node option \<Rightarrow> xml_node option \<Rightarrow> state \<Rightarrow> state" where
  "Note_ends node notations tremolo s =
     (let s1 = (case tremolo of
                  None \<Rightarrow> s
                | Some t \<Rightarrow>
                    (let sa = (if HasAttributeWithValue t ''type'' ''single''
                               then RemoveLastFromStack BTREM s else s)
                     in if HasAttributeWithValue t ''type'' ''stop''
                        then RemoveLastFromStack FTREM sa else sa));
          s2 = (if (case notations of
                      None \<Rightarrow> False
                    | Some n \<Rightarrow> has_node n [Child ''tuplet'' [AttrEq ''type'' ''stop'']])
                then RemoveLastFromStack TUPLET s1 else s1)
      in if has_node node [Child ''beam'' [AttrEq ''number'' ''1'', TextEq ''end'']]
         then RemoveLastFromStack BEAM s2 else s2)"

definition set_start :: "nat \<Rightarrow> nat \<Rightarrow> state \<Rightarrow> state" where
  "set_start staff a s = SetStartid a (m_ID s) (SetStaff a [GetN s staff] s)"

definition Note_flush :: "nat \<Rightarrow> state \<Rightarrow> state" where
  "Note_flush staff s =
     (let s1 = (fold (set_start staff) (m_dirStack s) s)\<lparr>m_dirStack := []\<rparr>;
          s2 = (fold (set_start staff) (m_dynamStack s1) s1)\<lparr>m_dynamStack := []\<rparr>;
          s3 = (fold (set_start staff) (m_harmStack s2) s2)\<lparr>m_harmStack := []\<rparr>;
          s4 = (fold (set_start staff) (m_octaveStack s3) s3)\<lparr>m_octaveStack := []\<rparr>;
          s5 = (fold (set_start staff) (m_pedalStack s4) s4)\<lparr>m_pedalStack := []\<rparr>;
          s6 = (fold (set_start staff) (m_tempoStack s5) s5)\<lparr>m_tempoStack := []\<rparr>;
          s7 = fold (\<lambda>e sa. if att_startid (objs sa (fst e)) = [] then set_start staff (fst e) sa
                            else sa) (m_hairpinStack s6) s6
      in s7\<lparr>m_hairpinStack :=
              map (\<lambda>e. (fst e, musicxml_OpenHairpin (hairpin_dirN (snd e)) (m_ID s7)))
                (m_hairpinStack s7)\<rparr>)"

definition Note_post ::
  "xml_node \<Rightarrow> xml_node option \<Rightarrow> xml_node option \<Rightarrow> nat \<Rightarrow> nat \<Rightarrow> nat \<Rightarrow> int \<Rightarrow> state
    \<Rightarrow> state" where
  "Note_post node notations tremolo layer staff element measureNum s =
     (let has = (\<lambda>path. case notations of None \<Rightarrow> False | Some n \<Rightarrow> has_node n path);
          s1 = s\<lparr>m_ID := ''#'' @ GetUuid s element\<rparr>;
          s2 = Note_dynamics (has [nm ''dynamics'']) staff measureNum s1;
          s3 = Note_ornament FERMATA (has [nm ''fermata'']) staff measureNum s2;
          s4 = Note_ornament MORDENT (has [nm ''ornaments'', nm ''mordent'']) staff measureNum s3;
          s5 = Note_ornament MORDENT (has [nm ''ornaments'', nm ''inverted-mordent''])
                 staff measureNum s4;
          s6 = Note_ornament TRILL (has [nm ''ornaments'', nm ''trill-mark'']) staff measureNum s5;
          s7 = Note_ornament TURN (has [nm ''ornaments'', nm ''turn'']) staff measureNum s6;
          s8 = Note_ornament TURN (has [nm ''ornaments'', nm ''inverted-turn'']) staff measureNum s7;
          s9 = Note_slurs (case notations of None \<Rightarrow> [] | Some n \<Rightarrow> select_nodes n [nm ''slur''])
                 staff layer element measureNum s8;
          s10 = Note_ends node notations tremolo s9
      in Note_flush staff s10)"

definition ReadMusicXmlNote ::
  "xml_node \<Rightarrow> xml_node list \<Rightarrow> nat \<Rightarrow> int \<Rightarrow> state \<Rightarrow> state option" where
  "ReadMusicXmlNote node after meas measureNum s =
     (case SelectLayer node meas s of
        None \<Rightarrow> None
      | Some (layer, s1) \<Rightarrow>
          (case GetFirstParent s1 layer STAFF of
             None \<Rightarrow> None
           | Some staff \<Rightarrow>
               (let s2 = (if \<not> has_node node [nm ''chord'']
                          then s1\<lparr>m_durTotal :=
                                   m_durTotal s1 + atoi (GetContentOfChild node [nm ''duration''])\<rparr>
                          else s1)
                in if m_mRpt s2 then
                     (case GetFirst s2 layer MRPT of
                        Some mRpt \<Rightarrow> Some s2
                      | None \<Rightarrow>
                          (let (mRpt, s3) = new_obj MRPT s2
                           in Some (AddLayerElement layer mRpt s3)))
                   else
                     (let notations =
                            select_single_node node
                              [Child ''notations'' [NotAttrEq ''print-object'' ''no'']];
                          cue = (has_node node [nm ''cue'']
                                 \<or> has_node node [Child ''type'' [AttrEq ''size'' ''cue'']]);
                          typeStr = GetContentOfChild node [nm ''type''];
                          dots = int (length (select_nodes node [nm ''dot'']));
                          tremolo = (case notations of
                                       None \<Rightarrow> None
                                     | Some n \<Rightarrow>
                                         select_single_node n [nm ''ornaments'', nm ''tremolo'']);
                          tremSlashNum = Note_tremSlashNum tremolo;
                          s3 = Note_tremolo_start tremolo layer s2;
                          s4 = Note_beam_start node layer s3;
                          s5 = Note_tuplet_start notations layer s4
                      in do {
                           (element, s6) \<leftarrow>
                             (case select_single_node node [nm ''rest''] of
                                Some restNode \<Rightarrow>
                                  Some (Note_rest node restNode layer cue typeStr dots s5)
                              | None \<Rightarrow>
                                  Note_pitched node after notations layer staff cue typeStr dots
                                    tremSlashNum measureNum s5);
                           Some (Note_post node notations tremolo layer staff element measureNum s6)
                         }))))"

subsection \<open>Parsing methods: measures and parts\<close>

definition Measure_staff :: "nat \<Rightarrow> int \<Rightarrow> nat \<Rightarrow> state \<Rightarrow> state" where
  "Measure_staff meas staffOffset i s =
     (let (staff, s1) = new_obj STAFF s;
          s2 = SetN staff (int i + 1 + staffOffset) s1
      in AddChild meas staff s2)"

fun Measure_children ::
  "xml_node list \<Rightarrow> xml_node list \<Rightarrow> nat \<Rightarrow> int \<Rightarrow> state \<Rightarrow> state option" where
  "Measure_children prev [] meas measureNum s = Some s"
| "Measure_children prev (it # after) meas measureNum s =
     do {
       s1 \<leftarrow> (if IsElement it ''attributes'' then ReadMusicXmlAttributes it meas measureNum s
              else if IsElement it ''backup'' then ReadMusicXmlBackup it after meas measureNum s
              else if IsElement it ''barline'' then ReadMusicXmlBarLine it meas measureNum s
              else if IsElement it ''direction'' then ReadMusicXmlDirection it meas measureNum s
              else if IsElement it ''forward''
              then ReadMusicXmlForward prev it after meas measureNum s
              else if IsElement it ''harmony'' then ReadMusicXmlHarmony it meas measureNum s
              else if IsElement it ''note'' then ReadMusicXmlNote it after meas measureNum s
              else if IsElement it ''print'' then ReadMusicXmlPrint it meas measureNum s
              else Some s);
       Measure_children (it # prev) after meas measureNum s1
     }"

definition ReadMusicXmlMeasure ::
  "xml_node \<Rightarrow> nat \<Rightarrow> int \<Rightarrow> int \<Rightarrow> state \<Rightarrow> state option" where
  "ReadMusicXmlMeasure node meas nbStaves staffOffset s =
     (let measureNum = atoi (GetAttributeValue node ''number'');
          s1 = SetN meas measureNum s;
          s2 = fold (Measure_staff meas staffOffset) [0..<nat nbStaves] s1;
          s3 = s2\<lparr>m_elementStack := [], m_durTotal := 0\<rparr>
      in Measure_children [] (node_children node) meas measureNum s3)"

fun Part_measures :: "xml_node list \<Rightarrow> nat \<Rightarrow> int \<Rightarrow> int \<Rightarrow> int \<Rightarrow> state \<Rightarrow> state option" where
  "Part_measures [] sect nbStaves staffOffset i s = Some s"
| "Part_measures (xmlMeasure # ms) sect nbStaves staffOffset i s =
     (let (meas, s1) = new_obj MEASURE s
      in do {
           s2 \<leftarrow> ReadMusicXmlMeasure xmlMeasure meas nbStaves staffOffset s1;
           s3 \<leftarrow> AddMeasure sect meas i s2;
           Part_measures ms sect nbStaves staffOffset (i + 1) s3
         })"

definition ReadMusicXmlPart :: "xml_node \<Rightarrow> nat \<Rightarrow> int \<Rightarrow> int \<Rightarrow> state \<Rightarrow> state option" where
  "ReadMusicXmlPart node sect nbStaves staffOffset s =
     (let measures = select_nodes node [nm ''measure'']
      in if measures = [] then Some (LogWarning ''No measure to load'' s)
         else Part_measures measures sect nbStaves staffOffset 0 s)"

subsection \<open>Parsing methods: the attributes of a part\<close>

text \<open>The staff definition \<open>i\<close> of a part, read from one element of the first measure.
  The clef, the key, the staff details and the transposition only set attributes of the
  staff definition that are not kept here; the meter count and the divisions are state
  of the importer.\<close>

definition PartAttributes_time :: "xml_node \<Rightarrow> nat \<Rightarrow> state \<Rightarrow> state" where
  "PartAttributes_time it i s =
     (let numbered = select_single_node it [Child ''time'' [AttrEq ''number'' (to_string (int i + 1))]];
          time = (case numbered of None \<Rightarrow> select_single_node it [nm ''time''] | Some t \<Rightarrow> Some t)
      in case time of
           None \<Rightarrow> s
         | Some t \<Rightarrow>
             (let s1 = (if length (select_nodes t [nm ''beats'']) > 1
                        then LogWarning ''Compound meter signatures are not supported'' s else s)
              in case select_single_node t [nm ''beats''] of
                   None \<Rightarrow> s1
                 | Some beats \<Rightarrow>
                     if HasContent beats then
                       (let compound = node_text beats;
                            s2 = s1\<lparr>m_meterCount := atoi compound\<rparr>
                        in if CHR ''+'' \<in> set compound
                           then LogWarning ''Compound time is not supported''
                                  (s2\<lparr>m_meterCount :=
                                        m_meterCount s2
                                        + atoi (dropWhile (\<lambda>c. c \<noteq> CHR ''+'') compound)\<rparr>)
                           else s2)
                     else s1))"

definition PartAttributes_staff :: "xml_node \<Rightarrow> nat \<Rightarrow> int \<Rightarrow> nat \<Rightarrow> state \<Rightarrow> state" where
  "PartAttributes_staff it staffGrp staffOffset i s =
     (let s1 = (case FindChildByN s staffGrp STAFFDEF (int i + 1 + staffOffset) of
                  Some staffDef \<Rightarrow> s
                | None \<Rightarrow>
                    (let (staffDef, sa) = new_obj STAFFDEF s;
                         sb = SetN staffDef (int i + 1 + staffOffset) sa;
                         sc = AddChild staffGrp staffDef sb
                     in sc\<lparr>m_octDis := m_octDis sc @ [0]\<rparr>));
          s2 = PartAttributes_time it i s1
      in case select_single_node it [nm ''divisions''] of
           None \<Rightarrow> s2
         | Some divisions \<Rightarrow> s2\<lparr>m_ppq := atoi (GetContent divisions)\<rparr>)"

definition leading_element :: "xml_node \<Rightarrow> bool" where
  "leading_element it =
     (IsElement it ''attributes'' \<or> IsElement it ''barline'' \<or> IsElement it ''print''
      \<or> IsElement it ''sound'')"

definition staves_of :: "xml_node \<Rightarrow> int \<Rightarrow> int" where
  "staves_of it nbStaves =
     (case select_single_node it [nm ''staves''] of
        None \<Rightarrow> nbStaves
      | Some staves \<Rightarrow>
          if HasContent staves
          then (let values = atoi (node_text staves) in if values > 0 then values else 1)
          else nbStaves)"

fun PartAttributes_loop ::
  "xml_node list \<Rightarrow> nat \<Rightarrow> int \<Rightarrow> int \<Rightarrow> state \<Rightarrow> int \<times> state" where
  "PartAttributes_loop [] staffGrp staffOffset nbStaves s = (nbStaves, s)"
| "PartAttributes_loop (it # its) staffGrp staffOffset nbStaves s =
     (if \<not> leading_element it then (nbStaves, s)
      else
        (let nbStaves' = staves_of it nbStaves;
             s1 = fold (PartAttributes_staff it staffGrp staffOffset) [0..<nat nbStaves'] s
         in PartAttributes_loop its staffGrp staffOffset nbStaves' s1))"

definition ReadMusicXmlPartAttributesAsStaffDef ::
  "xml_node \<Rightarrow> nat \<Rightarrow> int \<Rightarrow> state \<Rightarrow> int \<times> state" where
  "ReadMusicXmlPartAttributesAsStaffDef node staffGrp staffOffset s =
     PartAttributes_loop (node_children node) staffGrp staffOffset 1 s"

text \<open>The same loop renames every \<^verbatim>\<open>attributes\<close> element it reads to
  \<^verbatim>\<open>mei-read\<close>, in the document itself, so that reading the measure later skips it.
  The embedding keeps the document as a value, and returns the renamed one.\<close>

definition set_name :: "xml_node \<Rightarrow> string \<Rightarrow> xml_node" where
  "set_name n name = XmlNode name (node_attrs n) (node_text n) (node_children n)"

fun rename_leading :: "xml_node list \<Rightarrow> xml_node list" where
  "rename_leading [] = []"
| "rename_leading (it # its) =
     (if \<not> leading_element it then it # its
      else (if IsElement it ''attributes'' then set_name it ''mei-read'' else it)
           # rename_leading its)"

fun update_first :: "('a \<Rightarrow> bool) \<Rightarrow> ('a \<Rightarrow> 'a) \<Rightarrow> 'a list \<Rightarrow> 'a list" where
  "update_first P f [] = []"
| "update_first P f (x # xs) = (if P x then f x # xs else x # update_first P f xs)"

definition set_children :: "xml_node \<Rightarrow> xml_node list \<Rightarrow> xml_node" where
  "set_children n cs = XmlNode (node_name n) (node_attrs n) (node_text n) cs"

definition is_part :: "string \<Rightarrow> xml_node \<Rightarrow> bool" where
  "is_part partId p = (node_name p = ''part'' \<and> map_of (node_attrs p) ''id'' = Some partId)"

text \<open>The first measure of the part, \<^verbatim>\<open>/score-partwise/part[@id='...']/measure[1]\<close>, and
  the document after the renaming in that measure.\<close>

definition partFirstMeasure_of :: "xml_node \<Rightarrow> string \<Rightarrow> xml_node option" where
  "partFirstMeasure_of xmlDoc partId =
     select_single_node xmlDoc
       [nm ''score-partwise'', Child ''part'' [AttrEq ''id'' partId], Child ''measure'' [First]]"

definition rename_in_part :: "xml_node \<Rightarrow> xml_node" where
  "rename_in_part p =
     set_children p
       (update_first (\<lambda>m. node_name m = ''measure'')
          (\<lambda>m. set_children m (rename_leading (node_children m))) (node_children p))"

definition rename_in_doc :: "xml_node \<Rightarrow> string \<Rightarrow> xml_node" where
  "rename_in_doc xmlDoc partId =
     (let has_measure = (\<lambda>p. is_part partId p \<and> has_node p [nm ''measure''])
      in set_children xmlDoc
           (update_first
              (\<lambda>sp. node_name sp = ''score-partwise'' \<and> list_ex has_measure (node_children sp))
              (\<lambda>sp. set_children sp (update_first has_measure rename_in_part (node_children sp)))
              (node_children xmlDoc)))"

subsection \<open>Parsing methods: the document\<close>

text \<open>The header of the destination: the title and the application information. The
  identifiers, the date and the version written into it come from the environment and
  are left out.\<close>

definition ReadMusicXmlTitle :: "xml_node \<Rightarrow> state \<Rightarrow> state" where
  "ReadMusicXmlTitle xmlDoc s =
     (let workTitle = select_single_node xmlDoc [nm ''score-partwise'', nm ''work'', nm ''work-title''];
          movementTitle = select_single_node xmlDoc [nm ''score-partwise'', nm ''movement-title''];
          title = (case movementTitle of
                     Some m \<Rightarrow> GetContent m
                   | None \<Rightarrow> (case workTitle of Some w \<Rightarrow> GetContent w | None \<Rightarrow> []));
          meiHead =
            XmlNode ''meiHead'' [] []
              [XmlNode ''fileDesc'' [] []
                 [XmlNode ''titleStmt'' [] [] [XmlNode ''title'' [] title []],
                  XmlNode ''pubStmt'' [] [] []],
               XmlNode ''encodingDesc'' [] []
                 [XmlNode ''appInfo'' [] []
                    [XmlNode ''application'' [] []
                       [XmlNode ''name'' [] ''Verovio'' [],
                        XmlNode ''p'' [] ''Transcoded from MusicXML'' []]]]]
      in s\<lparr>m_doc := (m_doc s)\<lparr>m_header := m_header (m_doc s) @ [meiHead]\<rparr>\<rparr>)"

text \<open>Modelled from the spec: \<^verbatim>\<open>Doc::SetType\<close>, \<^verbatim>\<open>Doc::CreateScoreBuffer\<close> and
  \<^verbatim>\<open>Doc::ConvertToPageBasedDoc\<close> are not part of the source file. The first stores the
  type; the second makes a new score, which becomes the score buffer of the document; the
  third is the final step owned by the renderer, of which only the call is recorded.\<close>

definition SetType :: "DocType \<Rightarrow> state \<Rightarrow> state" where
  "SetType ty s = s\<lparr>m_doc := (m_doc s)\<lparr>doc_type := ty\<rparr>\<rparr>"

definition CreateScoreBuffer :: "state \<Rightarrow> nat \<times> state" where
  "CreateScoreBuffer s =
     (let (score, s1) = new_obj SCORE s
      in (score, s1\<lparr>m_doc := (m_doc s1)\<lparr>m_scoreBuffer := Some score\<rparr>\<rparr>))"

definition ConvertToPageBasedDoc :: "state \<Rightarrow> state" where
  "ConvertToPageBasedDoc s = s\<lparr>m_doc := (m_doc s)\<lparr>pageBased := Suc (pageBased (m_doc s))\<rparr>\<rparr>"

text \<open>One child of the part list. The local variables of the loop are the document (the
  loop renames elements of it), the stack of staff groups and the staff offset. Taking
  \<^verbatim>\<open>back()\<close> of the empty stack, or popping it, has no defined behaviour.\<close>

definition PartList_group :: "xml_node \<Rightarrow> nat list \<Rightarrow> state \<Rightarrow> (nat list \<times> state) option" where
  "PartList_group x staffGrpStack s =
     (if staffGrpStack = [] then None
      else if HasAttributeWithValue x ''type'' ''start'' then
        (let (staffGrp, s1) = new_obj STAFFGRP s;
             s2 = AddChild (last staffGrpStack) staffGrp s1
         in Some (staffGrpStack @ [staffGrp], s2))
      else Some (butlast staffGrpStack, s))"

definition PartList_part ::
  "xml_node \<Rightarrow> nat \<Rightarrow> xml_node \<Rightarrow> nat list \<Rightarrow> int \<Rightarrow> state
    \<Rightarrow> (xml_node \<times> int \<times> state) option" where
  "PartList_part x sect xmlDoc staffGrpStack staffOffset s =
     (let partId = GetAttributeValue x ''id''
      in case partFirstMeasure_of xmlDoc partId of
           None \<Rightarrow>
             Some (xmlDoc, staffOffset,
                   LogWarning (''Could not find the '' @ quoted ''attributes''
                               @ '' element in the first measure of part '' @ quoted partId) s)
         | Some partFirstMeasure \<Rightarrow>
             if \<not> has_node partFirstMeasure [nm ''attributes''] then
               Some (xmlDoc, staffOffset,
                     LogWarning (''Could not find the '' @ quoted ''attributes''
                                 @ '' element in the first measure of part '' @ quoted partId) s)
             else
               (let partName = GetContentOfChild x [nm ''part-name''];
                    (partStaffGrp, s1) = new_obj STAFFGRP s;
                    (nbStaves, s2) =
                      ReadMusicXmlPartAttributesAsStaffDef partFirstMeasure partStaffGrp staffOffset s1;
                    xmlDoc' = rename_in_doc xmlDoc partId
                in if staffGrpStack = [] then None
                   else
                     (let s3 = (if nbStaves > 1
                                then AddChild (last staffGrpStack) partStaffGrp
                                       (SetLabel partStaffGrp partName s2)
                                else
                                  (let sa = (case GetFirst s2 partStaffGrp STAFFDEF of
                                               None \<Rightarrow> s2
                                             | Some staffDef \<Rightarrow> SetLabel staffDef partName s2)
                                   in MoveChildrenFrom (last staffGrpStack) partStaffGrp sa))
                      in case select_single_node xmlDoc'
                                [nm ''score-partwise'', Child ''part'' [AttrEq ''id'' partId]] of
                           None \<Rightarrow>
                             Some (xmlDoc', staffOffset,
                                   LogWarning (''Could not find the part '' @ quoted partId) s3)
                         | Some part \<Rightarrow>
                             do {
                               s4 \<leftarrow> ReadMusicXmlPart part sect nbStaves staffOffset s3;
                               Some (xmlDoc', staffOffset + nbStaves, s4)
                             })))"

fun PartList_loop ::
  "xml_node list \<Rightarrow> nat \<Rightarrow> xml_node \<Rightarrow> nat list \<Rightarrow> int \<Rightarrow> state \<Rightarrow> (int \<times> state) option" where
  "PartList_loop [] sect xmlDoc staffGrpStack staffOffset s = Some (staffOffset, s)"
| "PartList_loop (x # xs) sect xmlDoc staffGrpStack staffOffset s =
     (if IsElement x ''part-group'' then
        do {
          (staffGrpStack', s1) \<leftarrow> PartList_group x staffGrpStack s;
          PartList_loop xs sect xmlDoc staffGrpStack' staffOffset s1
        }
      else if IsElement x ''score-part'' then
        do {
          (xmlDoc', staffOffset', s1) \<leftarrow> PartList_part x sect xmlDoc staffGrpStack staffOffset s;
          PartList_loop xs sect xmlDoc' staffGrpStack staffOffset' s1
        }
      else PartList_loop xs sect xmlDoc staffGrpStack staffOffset s)"

text \<open>The final pass: every control element is added to the measure of its number.\<close>

fun attach_controls :: "(int \<times> nat) list \<Rightarrow> nat \<Rightarrow> nat option \<Rightarrow> state \<Rightarrow> state" where
  "attach_controls [] sect cache s = s"
| "attach_controls (ce # ces) sect cache s =
     (let found = (case cache of
                     None \<Rightarrow> FindChildByN s sect MEASURE (fst ce)
                   | Some m \<Rightarrow> if GetN s m \<noteq> fst ce then FindChildByN s sect MEASURE (fst ce)
                               else Some m)
      in case found of
           None \<Rightarrow>
             attach_controls ces sect None
               (LogWarning (''Element '' @ quoted (GetClassName (classId (objs s (snd ce))))
                  @ '' could not be added to measure '' @ quoted (to_string (fst ce))) s)
         | Some m \<Rightarrow> attach_controls ces sect (Some m) (AddChild m (snd ce) s))"

definition ReadMusicXml :: "xml_node \<Rightarrow> xml_node option \<Rightarrow> state \<Rightarrow> (bool \<times> state) option" where
  "ReadMusicXml xmlDoc rootNode s =
     (if rootNode = None then None
      else
        (let s1 = ReadMusicXmlTitle xmlDoc s;
             (score, s2) = CreateScoreBuffer s1;
             (sect, s3) = new_obj SECTION s2;
             s4 = AddChild score sect s3;
             (staffGrp, s5) = new_obj STAFFGRP s4;
             s6 = AddChild (m_scoreDef (m_doc s5)) staffGrp s5;
             s6a = s6\<lparr>m_octDis := m_octDis s6 @ [0]\<rparr>;
             s7 = (case select_single_node xmlDoc
                          [nm ''score-partwise'', Child ''part'' [First], Child ''measure'' [First],
                           Child ''sound'' [HasAttr ''tempo'', First]] of
                     None \<Rightarrow> s6a
                   | Some scoreMidiBpm \<Rightarrow>
                       SetMidiBpm (m_scoreDef (m_doc s6a))
                         (atoi (GetAttributeValue scoreMidiBpm ''tempo'')) s6a);
             partListChildren = select_nodes xmlDoc [nm ''score-partwise'', nm ''part-list'', AnyChild]
         in do {
              (staffOffset, s8) \<leftarrow> PartList_loop partListChildren sect xmlDoc [staffGrp] 0 s7;
              let s9 = attach_controls (m_controlElements s8) sect None s8;
              Some (True, ConvertToPageBasedDoc s9)
            }))"

subsection \<open>The entry points\<close>

text \<open>The parser is outside the source file and is a parameter: it maps the name of a
  file, or a text, to the parse result (whether the parse succeeded) and the document it
  built, which need not be empty when the parse failed. The root handed to
  \<^verbatim>\<open>ReadMusicXml\<close> is the first child of the document.\<close>

definition first_child :: "xml_node \<Rightarrow> xml_node option" where
  "first_child n = (case node_children n of [] \<Rightarrow> None | c # _ \<Rightarrow> Some c)"

definition ImportFile ::
  "(string \<Rightarrow> bool \<times> xml_node) \<Rightarrow> string \<Rightarrow> state \<Rightarrow> (bool \<times> state) option" where
  "ImportFile load_file filename s =
     (let s1 = SetType Raw s;
          (result, xmlDoc) = load_file filename
      in if \<not> result then Some (False, s1)
         else ReadMusicXml xmlDoc (first_child xmlDoc) s1)"

definition ImportString ::
  "(string \<Rightarrow> bool \<times> xml_node) \<Rightarrow> string \<Rightarrow> state \<Rightarrow> (bool \<times> state) option" where
  "ImportString load musicxml s =
     (let s1 = SetType Raw s;
          (result, xmlDoc) = load musicxml
      in ReadMusicXml xmlDoc (first_child xmlDoc) s1)"

text \<open>A staff, a layer, a note C4, a tie and a second note C4 (at the places 1 to 5 of the
  store), with nothing pending.\<close>

definition tie_example :: state where
  "tie_example =
     (let (staff, s1) = new_obj STAFF (MusicXmlInput_new Raw 480 4);
          s2 = SetN staff 1 s1;
          (layer, s3) = new_obj LAYER s2;
          s4 = SetN layer 1 s3;
          (note, s5) = new_obj NOTE s4;
          s6 = SetOct note 4 (SetPname note PITCHNAME_c s5);
          (tie, s7) = new_obj TIE s6;
          (note2, s8) = new_obj NOTE s7
      in SetOct note2 4 (SetPname note2 PITCHNAME_c s8))"

text \<open>Two staves (numbers 1 and 2, at the places 1 and 2 of the store), two layers
  (numbers 1 and 2, at 3 and 4), the notes D5, C5, C4 and a second C4 (at 5 to 8), five
  ties (at 9 to 13) and three slurs (at 14 to 16), with nothing pending.\<close>

definition pending_objects :: state where
  "pending_objects =
     (let (staff1, s1) = new_obj STAFF (MusicXmlInput_new Raw 480 4);
          (staff2, s2) = new_obj STAFF (SetN staff1 1 s1);
          (layer1, s3) = new_obj LAYER (SetN staff2 2 s2);
          (layer2, s4) = new_obj LAYER (SetN layer1 1 s3);
          (d5, s5) = new_obj NOTE (SetN layer2 2 s4);
          (c5, s6) = new_obj NOTE (SetOct d5 5 (SetPname d5 PITCHNAME_d s5));
          (c4, s7) = new_obj NOTE (SetOct c5 5 (SetPname c5 PITCHNAME_c s6));
          (c4', s8) = new_obj NOTE (SetOct c4 4 (SetPname c4 PITCHNAME_c s7));
          (t1, s9) = new_obj TIE (SetOct c4' 4 (SetPname c4' PITCHNAME_c s8));
          (t2, s10) = new_obj TIE s9;
          (t3, s11) = new_obj TIE s10;
          (t4, s12) = new_obj TIE s11;
          (t5, s13) = new_obj TIE s12;
          (u1, s14) = new_obj SLUR s13;
          (u2, s15) = new_obj SLUR s14;
          (u3, s16) = new_obj SLUR s15
      in s16)"

text \<open>Four ties opened in staff 1 and layer 1 on D5 and on C5, in staff 2 and layer 1 on
  C4, and in staff 1 and layer 2 on C4: each differs from a C4 of staff 1 and layer 1 in
  one field.\<close>

definition pending_ties :: state where
  "pending_ties =
     OpenTie 1 4 7 12 (OpenTie 2 3 7 11 (OpenTie 1 3 6 10 (OpenTie 1 3 5 9 pending_objects)))"

text \<open>The same with a fifth tie, opened on the C4 of staff 1 and layer 1 after the first
  two.\<close>

definition pending_middle :: state where
  "pending_middle =
     OpenTie 1 4 7 12 (OpenTie 2 3 7 11 (OpenTie 1 3 7 13
       (OpenTie 1 3 6 10 (OpenTie 1 3 5 9 pending_objects))))"

text \<open>Three slurs opened after the four ties: number 2 in staff 1 and layer 1, number 1 in
  staff 2 and layer 1, number 1 in staff 1 and layer 2.\<close>

definition pending_slurs :: state where
  "pending_slurs =
     OpenSlur 1 4 1 16 (OpenSlur 2 3 1 15 (OpenSlur 1 3 2 14 pending_ties))"




section \<open>Properties\<close>

subsection \<open>Lists with one element erased\<close>

lemma erase_first_split:
  "list_all (\<lambda>x. \<not> P x) pre \<Longrightarrow> P e \<Longrightarrow> erase_first P (pre @ e # post) = pre @ post"
  by (induction pre) auto

lemma erase_first_none: "list_all (\<lambda>x. \<not> P x) xs \<Longrightarrow> erase_first P xs = xs"
  by (induction xs) auto

lemma find_split:
  "list_all (\<lambda>x. \<not> P x) pre \<Longrightarrow> P e \<Longrightarrow> find P (pre @ e # post) = Some e"
  by (induction pre) auto

lemma find_none: "list_all (\<lambda>x. \<not> P x) xs \<Longrightarrow> find P xs = None"
  by (induction xs) auto

subsection \<open>The element stack\<close>

text \<open>
  Claim C7. \<^verbatim>\<open>RemoveLastFromStack\<close> deletes the entry of the given class that is
  nearest to the top of the stack: when the stack is \<open>below @ e # above\<close> with \<open>e\<close> of
  the class and no entry of \<open>above\<close> of the class, the result is \<open>below @ above\<close>, so
  the entries above and below the removed one stay in place and in order. When no entry
  of the class is on the stack the state is unchanged. The two cases are exhaustive.
\<close>

theorem RemoveLastFromStack_nearest:
  "(\<forall>below e above. m_elementStack s = below @ e # above \<and> Is s e c
       \<and> list_all (\<lambda>x. \<not> Is s x c) above
     \<longrightarrow> RemoveLastFromStack c s = s\<lparr>m_elementStack := below @ above\<rparr>)
   \<and> (list_all (\<lambda>x. \<not> Is s x c) (m_elementStack s) \<longrightarrow> RemoveLastFromStack c s = s)
   \<and> (\<not> list_all (\<lambda>x. \<not> Is s x c) (m_elementStack s)
      \<longrightarrow> (\<exists>below e above. m_elementStack s = below @ e # above \<and> Is s e c
            \<and> list_all (\<lambda>x. \<not> Is s x c) above))"
proof (intro conjI allI impI)
  fix below e above
  assume h: "m_elementStack s = below @ e # above \<and> Is s e c
       \<and> list_all (\<lambda>x. \<not> Is s x c) above"
  then have "rev (m_elementStack s) = rev above @ e # rev below" by simp
  moreover have "list_all (\<lambda>x. \<not> Is s x c) (rev above)" using h by (simp add: list_all_iff)
  ultimately have "erase_first (\<lambda>e. Is s e c) (rev (m_elementStack s)) = rev above @ rev below"
    using h erase_first_split [of "\<lambda>e. Is s e c" "rev above" e "rev below"] by simp
  then show "RemoveLastFromStack c s = s\<lparr>m_elementStack := below @ above\<rparr>"
    by (simp add: RemoveLastFromStack_def)
next
  assume "list_all (\<lambda>x. \<not> Is s x c) (m_elementStack s)"
  then have "list_all (\<lambda>x. \<not> Is s x c) (rev (m_elementStack s))" by (simp add: list_all_iff)
  then show "RemoveLastFromStack c s = s"
    by (simp add: RemoveLastFromStack_def erase_first_none)
next
  assume "\<not> list_all (\<lambda>x. \<not> Is s x c) (m_elementStack s)"
  then have "\<exists>x \<in> set (m_elementStack s). Is s x c" by (simp add: list_all_iff)
  then obtain below e above where "m_elementStack s = below @ e # above" "Is s e c"
    "\<forall>x \<in> set above. \<not> Is s x c"
    using split_list_last_prop [of "m_elementStack s" "\<lambda>x. Is s x c"] by blast
  then show "\<exists>below e above. m_elementStack s = below @ e # above \<and> Is s e c
            \<and> list_all (\<lambda>x. \<not> Is s x c) above"
    by (auto simp: list_all_iff)
qed

lemma stack_example_stack: "m_elementStack stack_example = [1, 2, 3, 4]"
  by (simp add: stack_example_def new_obj_def MusicXmlInput_new_def)

lemma stack_example_classes:
  "Is stack_example (Suc 0) c = (c = BEAM)" "Is stack_example 2 c = (c = TUPLET)"
  "Is stack_example 3 c = (c = BEAM)" "Is stack_example 4 c = (c = CHORD)"
  by (auto simp add: stack_example_def new_obj_def MusicXmlInput_new_def Is_def empty_obj_def)

theorem RemoveLastFromStack_nearest_witness:
  "m_elementStack (RemoveLastFromStack BEAM stack_example) = [1, 2, 4]
   \<and> RemoveLastFromStack FTREM stack_example = stack_example"
proof -
  have "m_elementStack stack_example = [1, 2] @ 3 # [4] \<and> Is stack_example 3 BEAM
       \<and> list_all (\<lambda>x. \<not> Is stack_example x BEAM) [4]"
    by (simp add: stack_example_stack stack_example_classes)
  then have "RemoveLastFromStack BEAM stack_example
      = stack_example\<lparr>m_elementStack := [1, 2] @ [4]\<rparr>"
    using RemoveLastFromStack_nearest [of stack_example BEAM] by blast
  moreover have "list_all (\<lambda>x. \<not> Is stack_example x FTREM) (m_elementStack stack_example)"
    by (simp add: stack_example_stack stack_example_classes)
  then have "RemoveLastFromStack FTREM stack_example = stack_example"
    using RemoveLastFromStack_nearest [of stack_example FTREM] by blast
  ultimately show ?thesis by simp
qed

subsection \<open>Reading and writing the store\<close>

lemmas getters = GetN_def GetPname_def GetOct_def GetUuid_def Is_def
lemmas setters = SetN_def SetPname_def SetOct_def SetOctGes_def SetDur_def SetDots_def
  SetStemDir_def SetStemMod_def SetSizeCue_def SetGrace_def SetVisible_def SetStartid_def
  SetEndid_def SetStaff_def SetCurvedir_def SetDisPlace_def SetLabel_def SetMidiBpm_def

subsection \<open>Ties\<close>

lemma tie_match_SetStartid [simp]:
  "tie_match (SetStartid a v s) staff layer note = tie_match s staff layer note"
  by (rule ext) (simp add: tie_match_def getters setters upd_def)

lemma OpenTie_effect:
  "att_startid (objs (OpenTie staff layer note tie s) tie) = ''#'' @ GetUuid s note"
  "att_endid (objs (OpenTie staff layer note tie s) a) = att_endid (objs s a)"
  "m_tieStack (OpenTie staff layer note tie s)
     = m_tieStack s @ [(tie, musicxml_OpenTie (GetN s staff) (GetN s layer) (GetPname s note)
                               (GetOct s note))]"
  "tie_match (OpenTie staff layer note tie s) staff' layer' note' = tie_match s staff' layer' note'"
  "GetUuid (OpenTie staff layer note tie s) a = GetUuid s a"
  by (auto simp add: OpenTie_def Let_def getters setters upd_def tie_match_def fun_eq_iff)

lemma CloseTie_match:
  assumes "m_tieStack s = pre @ e # post"
    and "list_all (\<lambda>x. \<not> tie_match s staff layer note x) pre"
    and "tie_match s staff layer note e"
  shows "m_tieStack (CloseTie staff layer note b s) = pre @ post"
    and "att_endid (objs (CloseTie staff layer note b s) (fst e)) = ''#'' @ GetUuid s note"
    and "att_startid (objs (CloseTie staff layer note b s) a) = att_startid (objs s a)"
    and "a \<noteq> fst e \<Longrightarrow> att_endid (objs (CloseTie staff layer note b s) a) = att_endid (objs s a)"
    and "warnings (CloseTie staff layer note b s)
         = (if b then warnings s
            else warnings s @ [''Closing tie for note '' @ quoted (GetUuid s note)
                    @ '' even though tie /tie[@type='' @ quoted ''stop''
                    @ ''] is missing in the MusicXML''])"
proof -
  have f: "find (tie_match s staff layer note) (m_tieStack s) = Some e"
    using assms by (simp add: find_split)
  have er: "erase_first (tie_match s staff layer note) (m_tieStack s) = pre @ post"
    using assms by (simp add: erase_first_split)
  show "m_tieStack (CloseTie staff layer note b s) = pre @ post"
    using f er by (simp add: CloseTie_def Let_def setters upd_def LogWarning_def)
  show "att_endid (objs (CloseTie staff layer note b s) (fst e)) = ''#'' @ GetUuid s note"
    using f by (simp add: CloseTie_def Let_def setters upd_def LogWarning_def)
  show "att_startid (objs (CloseTie staff layer note b s) a) = att_startid (objs s a)"
    using f by (simp add: CloseTie_def Let_def setters upd_def LogWarning_def)
  show "a \<noteq> fst e \<Longrightarrow> att_endid (objs (CloseTie staff layer note b s) a) = att_endid (objs s a)"
    using f by (simp add: CloseTie_def Let_def setters upd_def LogWarning_def)
  show "warnings (CloseTie staff layer note b s)
         = (if b then warnings s
            else warnings s @ [''Closing tie for note '' @ quoted (GetUuid s note)
                    @ '' even though tie /tie[@type='' @ quoted ''stop''
                    @ ''] is missing in the MusicXML''])"
    using f by (simp add: CloseTie_def Let_def setters upd_def LogWarning_def getters)
qed

lemma CloseTie_stack:
  "m_tieStack (CloseTie staff layer note b s)
   = erase_first (tie_match s staff layer note) (m_tieStack s)"
proof (cases "find (tie_match s staff layer note) (m_tieStack s)")
  case None
  then have "list_all (\<lambda>x. \<not> tie_match s staff layer note x) (m_tieStack s)"
    by (auto simp add: find_None_iff list_all_iff)
  then show ?thesis using None by (simp add: CloseTie_def erase_first_none)
next
  case (Some e)
  then show ?thesis by (simp add: CloseTie_def Let_def setters upd_def LogWarning_def)
qed

lemma distinct_erase_first:
  "distinct (map f xs) \<Longrightarrow> distinct (map f (erase_first P xs))"
  "set (erase_first P xs) \<subseteq> set xs"
  by (induction xs) auto

text \<open>
  Claim C2. Tie round-trip. \<^verbatim>\<open>OpenTie\<close> sets the start reference of the tie to
  \<open>#\<close> followed by the identifier of the note, and appends to the pending list the tie
  with the key made of the staff number, the layer number, the pitch name and the octave
  of the note. When the pending list is \<open>pre @ e # post\<close>, every entry of \<open>pre\<close>
  differs from the closing note in the staff number, the layer number, the pitch name or the
  octave, and the four fields of \<open>e\<close> are those of the closing note, \<^verbatim>\<open>CloseTie\<close>
  leaves \<open>pre @ post\<close>, sets the end reference of the tie of \<open>e\<close> to \<open>#\<close>
  followed by the identifier of the closing note, keeps its start reference, and leaves the
  end reference of every other pending tie as it was; the tie of \<open>e\<close> is then no longer
  pending, the pending ties being distinct objects. They are: both operations keep the
  pending ties distinct, \<^verbatim>\<open>OpenTie\<close> when it is given a tie that is not pending (the
  importer hands it a tie it has just created), and a new importer has none pending.
  Opening a tie and closing it on a note with the same four fields, when no pending entry
  has them, gives back the pending list and a tie with both references.
\<close>

theorem tie_round_trip:
  "att_startid (objs (OpenTie staff layer note tie s) tie) = ''#'' @ GetUuid s note
   \<and> m_tieStack (OpenTie staff layer note tie s)
       = m_tieStack s @ [(tie, musicxml_OpenTie (GetN s staff) (GetN s layer) (GetPname s note)
                                 (GetOct s note))]
   \<and> (\<forall>pre e post.
          m_tieStack s = pre @ e # post
          \<and> (\<forall>x \<in> set pre. tie_staffN (snd x) \<noteq> GetN s staff \<or> tie_layerN (snd x) \<noteq> GetN s layer
                 \<or> tie_pname (snd x) \<noteq> GetPname s note \<or> tie_oct (snd x) \<noteq> GetOct s note)
          \<and> tie_staffN (snd e) = GetN s staff \<and> tie_layerN (snd e) = GetN s layer
          \<and> tie_pname (snd e) = GetPname s note \<and> tie_oct (snd e) = GetOct s note
        \<longrightarrow> m_tieStack (CloseTie staff layer note b s) = pre @ post
            \<and> att_endid (objs (CloseTie staff layer note b s) (fst e)) = ''#'' @ GetUuid s note
            \<and> att_startid (objs (CloseTie staff layer note b s) (fst e))
                = att_startid (objs s (fst e))
            \<and> (\<forall>x \<in> set (pre @ post). fst x \<noteq> fst e
                  \<longrightarrow> att_endid (objs (CloseTie staff layer note b s) (fst x))
                      = att_endid (objs s (fst x)))
            \<and> (distinct (map fst (m_tieStack s))
                  \<longrightarrow> fst e \<notin> fst ` set (m_tieStack (CloseTie staff layer note b s))))
   \<and> (distinct (map fst (m_tieStack s)) \<and> tie \<notin> fst ` set (m_tieStack s)
        \<longrightarrow> distinct (map fst (m_tieStack (OpenTie staff layer note tie s))))
   \<and> (distinct (map fst (m_tieStack s))
        \<longrightarrow> distinct (map fst (m_tieStack (CloseTie staff layer note b s))))
   \<and> (\<forall>staff' layer' note'.
          (\<forall>x \<in> set (m_tieStack s).
              tie_staffN (snd x) \<noteq> GetN s staff \<or> tie_layerN (snd x) \<noteq> GetN s layer
              \<or> tie_pname (snd x) \<noteq> GetPname s note \<or> tie_oct (snd x) \<noteq> GetOct s note)
          \<and> GetN s staff' = GetN s staff \<and> GetN s layer' = GetN s layer
          \<and> GetPname s note' = GetPname s note \<and> GetOct s note' = GetOct s note
        \<longrightarrow> m_tieStack (CloseTie staff' layer' note' b (OpenTie staff layer note tie s))
              = m_tieStack s
            \<and> att_startid (objs (CloseTie staff' layer' note' b (OpenTie staff layer note tie s)) tie)
                = ''#'' @ GetUuid s note
            \<and> att_endid (objs (CloseTie staff' layer' note' b (OpenTie staff layer note tie s)) tie)
                = ''#'' @ GetUuid s note')"
proof (intro conjI allI impI)
  show "att_startid (objs (OpenTie staff layer note tie s) tie) = ''#'' @ GetUuid s note"
    by (rule OpenTie_effect)
  show "m_tieStack (OpenTie staff layer note tie s)
       = m_tieStack s @ [(tie, musicxml_OpenTie (GetN s staff) (GetN s layer) (GetPname s note)
                                 (GetOct s note))]"
    by (rule OpenTie_effect)
next
  fix pre e post
  assume h: "m_tieStack s = pre @ e # post
          \<and> (\<forall>x \<in> set pre. tie_staffN (snd x) \<noteq> GetN s staff \<or> tie_layerN (snd x) \<noteq> GetN s layer
                 \<or> tie_pname (snd x) \<noteq> GetPname s note \<or> tie_oct (snd x) \<noteq> GetOct s note)
          \<and> tie_staffN (snd e) = GetN s staff \<and> tie_layerN (snd e) = GetN s layer
          \<and> tie_pname (snd e) = GetPname s note \<and> tie_oct (snd e) = GetOct s note"
  have st: "m_tieStack s = pre @ e # post" using h by simp
  have pre: "list_all (\<lambda>x. \<not> tie_match s staff layer note x) pre"
    using h by (auto simp add: list_all_iff tie_match_def)
  have m: "tie_match s staff layer note e" using h by (simp add: tie_match_def)
  show r: "m_tieStack (CloseTie staff layer note b s) = pre @ post"
    by (rule CloseTie_match(1) [OF st pre m])
  show "att_endid (objs (CloseTie staff layer note b s) (fst e)) = ''#'' @ GetUuid s note"
    by (rule CloseTie_match(2) [OF st pre m])
  show "att_startid (objs (CloseTie staff layer note b s) (fst e)) = att_startid (objs s (fst e))"
    by (rule CloseTie_match(3) [OF st pre m])
  show "\<forall>x \<in> set (pre @ post). fst x \<noteq> fst e
          \<longrightarrow> att_endid (objs (CloseTie staff layer note b s) (fst x)) = att_endid (objs s (fst x))"
    by (simp add: CloseTie_match(4) [OF st pre m])
  show "distinct (map fst (m_tieStack s))
        \<Longrightarrow> fst e \<notin> fst ` set (m_tieStack (CloseTie staff layer note b s))"
    using st by (auto simp add: r)
next
  assume "distinct (map fst (m_tieStack s)) \<and> tie \<notin> fst ` set (m_tieStack s)"
  then show "distinct (map fst (m_tieStack (OpenTie staff layer note tie s)))"
    by (simp add: OpenTie_effect)
next
  assume "distinct (map fst (m_tieStack s))"
  then show "distinct (map fst (m_tieStack (CloseTie staff layer note b s)))"
    by (simp add: CloseTie_stack distinct_erase_first)
next
  fix staff' layer' note'
  assume h: "(\<forall>x \<in> set (m_tieStack s).
              tie_staffN (snd x) \<noteq> GetN s staff \<or> tie_layerN (snd x) \<noteq> GetN s layer
              \<or> tie_pname (snd x) \<noteq> GetPname s note \<or> tie_oct (snd x) \<noteq> GetOct s note)
          \<and> GetN s staff' = GetN s staff \<and> GetN s layer' = GetN s layer
          \<and> GetPname s note' = GetPname s note \<and> GetOct s note' = GetOct s note"
  let ?s1 = "OpenTie staff layer note tie s"
  let ?e = "(tie, musicxml_OpenTie (GetN s staff) (GetN s layer) (GetPname s note) (GetOct s note))"
  have st: "m_tieStack ?s1 = m_tieStack s @ ?e # []" by (simp add: OpenTie_effect)
  have pre: "list_all (\<lambda>x. \<not> tie_match ?s1 staff' layer' note' x) (m_tieStack s)"
    using h by (auto simp add: OpenTie_effect list_all_iff tie_match_def)
  have m: "tie_match ?s1 staff' layer' note' ?e"
    using h by (simp add: OpenTie_effect) (simp add: tie_match_def)
  show "m_tieStack (CloseTie staff' layer' note' b ?s1) = m_tieStack s"
    using CloseTie_match(1) [OF st pre m] by simp
  show "att_startid (objs (CloseTie staff' layer' note' b ?s1) tie) = ''#'' @ GetUuid s note"
    using CloseTie_match(3) [OF st pre m] by (simp add: OpenTie_effect)
  show "att_endid (objs (CloseTie staff' layer' note' b ?s1) tie) = ''#'' @ GetUuid s note'"
    using CloseTie_match(2) [OF st pre m] by (simp add: OpenTie_effect)
qed

lemmas store_defs = new_obj_def MusicXmlInput_new_def getters setters upd_def
  Let_def empty_obj_def GenerateUuid_def

lemma dec_digits:
  "dec 7 = ''7''" "dec 8 = ''8''"
  by (simp_all add: dec.simps digit_char_def)


lemma pending_ties_facts:
  "m_tieStack pending_ties
   = [(9, musicxml_OpenTie 1 1 PITCHNAME_d 5), (10, musicxml_OpenTie 1 1 PITCHNAME_c 5),
      (11, musicxml_OpenTie 2 1 PITCHNAME_c 4), (12, musicxml_OpenTie 1 2 PITCHNAME_c 4)]"
  "GetN pending_ties 1 = 1" "GetN pending_ties 3 = 1"
  "GetPname pending_ties 7 = PITCHNAME_c" "GetOct pending_ties 7 = 4"
  "GetPname pending_ties 8 = PITCHNAME_c" "GetOct pending_ties 8 = 4"
  "GetUuid pending_ties 7 = ''m-7''" "GetUuid pending_ties 8 = ''m-8''"
  by (simp_all add: pending_ties_def pending_objects_def OpenTie_def store_defs dec_digits
      del: One_nat_def)

lemma pending_middle_facts:
  "m_tieStack pending_middle
   = [(9, musicxml_OpenTie 1 1 PITCHNAME_d 5), (10, musicxml_OpenTie 1 1 PITCHNAME_c 5),
      (13, musicxml_OpenTie 1 1 PITCHNAME_c 4),
      (11, musicxml_OpenTie 2 1 PITCHNAME_c 4), (12, musicxml_OpenTie 1 2 PITCHNAME_c 4)]"
  "GetN pending_middle 1 = 1" "GetN pending_middle 3 = 1"
  "GetPname pending_middle 8 = PITCHNAME_c" "GetOct pending_middle 8 = 4"
  "GetUuid pending_middle 8 = ''m-8''"
  "att_startid (objs pending_middle 13) = ''#m-7''"
  "map (\<lambda>a. att_endid (objs pending_middle a)) [9, 10, 11, 12, 13] = [[], [], [], [], []]"
  by (simp_all add: pending_middle_def pending_objects_def OpenTie_def store_defs dec_digits
      del: One_nat_def)

theorem tie_round_trip_witness:
  "m_tieStack pending_middle
   = [(9, musicxml_OpenTie 1 1 PITCHNAME_d 5), (10, musicxml_OpenTie 1 1 PITCHNAME_c 5),
      (13, musicxml_OpenTie 1 1 PITCHNAME_c 4),
      (11, musicxml_OpenTie 2 1 PITCHNAME_c 4), (12, musicxml_OpenTie 1 2 PITCHNAME_c 4)]
   \<and> m_tieStack (CloseTie 1 3 8 True pending_middle)
     = [(9, musicxml_OpenTie 1 1 PITCHNAME_d 5), (10, musicxml_OpenTie 1 1 PITCHNAME_c 5),
        (11, musicxml_OpenTie 2 1 PITCHNAME_c 4), (12, musicxml_OpenTie 1 2 PITCHNAME_c 4)]
   \<and> att_startid (objs (CloseTie 1 3 8 True pending_middle) 13) = ''#m-7''
   \<and> att_endid (objs (CloseTie 1 3 8 True pending_middle) 13) = ''#m-8''
   \<and> map (\<lambda>a. att_endid (objs (CloseTie 1 3 8 True pending_middle) a)) [9, 10, 11, 12]
     = [[], [], [], []]
   \<and> 13 \<notin> fst ` set (m_tieStack (CloseTie 1 3 8 True pending_middle))
   \<and> m_tieStack (OpenTie 1 3 7 13 pending_ties)
     = [(9, musicxml_OpenTie 1 1 PITCHNAME_d 5), (10, musicxml_OpenTie 1 1 PITCHNAME_c 5),
        (11, musicxml_OpenTie 2 1 PITCHNAME_c 4), (12, musicxml_OpenTie 1 2 PITCHNAME_c 4),
        (13, musicxml_OpenTie 1 1 PITCHNAME_c 4)]
   \<and> distinct (map fst (m_tieStack (OpenTie 1 3 7 13 pending_ties)))
   \<and> m_tieStack (CloseTie 1 3 8 True (OpenTie 1 3 7 13 pending_ties))
     = [(9, musicxml_OpenTie 1 1 PITCHNAME_d 5), (10, musicxml_OpenTie 1 1 PITCHNAME_c 5),
        (11, musicxml_OpenTie 2 1 PITCHNAME_c 4), (12, musicxml_OpenTie 1 2 PITCHNAME_c 4)]
   \<and> att_startid (objs (CloseTie 1 3 8 True (OpenTie 1 3 7 13 pending_ties)) 13) = ''#m-7''
   \<and> att_endid (objs (CloseTie 1 3 8 True (OpenTie 1 3 7 13 pending_ties)) 13) = ''#m-8''
   \<and> distinct (map fst (m_tieStack (CloseTie 1 3 8 True (OpenTie 1 3 7 13 pending_ties))))"
proof -
  note close = tie_round_trip [of 1 3 8 13 pending_middle True, THEN conjunct2, THEN conjunct2,
      THEN conjunct1, rule_format,
      of "[(9, musicxml_OpenTie 1 1 PITCHNAME_d 5), (10, musicxml_OpenTie 1 1 PITCHNAME_c 5)]"
         "(13, musicxml_OpenTie 1 1 PITCHNAME_c 4)"
         "[(11, musicxml_OpenTie 2 1 PITCHNAME_c 4), (12, musicxml_OpenTie 1 2 PITCHNAME_c 4)]"]
  have a: "m_tieStack (CloseTie 1 3 8 True pending_middle)
     = [(9, musicxml_OpenTie 1 1 PITCHNAME_d 5), (10, musicxml_OpenTie 1 1 PITCHNAME_c 5),
        (11, musicxml_OpenTie 2 1 PITCHNAME_c 4), (12, musicxml_OpenTie 1 2 PITCHNAME_c 4)]
   \<and> att_startid (objs (CloseTie 1 3 8 True pending_middle) 13) = ''#m-7''
   \<and> att_endid (objs (CloseTie 1 3 8 True pending_middle) 13) = ''#m-8''
   \<and> map (\<lambda>a. att_endid (objs (CloseTie 1 3 8 True pending_middle) a)) [9, 10, 11, 12]
     = [[], [], [], []]
   \<and> 13 \<notin> fst ` set (m_tieStack (CloseTie 1 3 8 True pending_middle))"
    using close pending_middle_facts(8) by (simp add: pending_middle_facts(1-7) del: One_nat_def)
  note open_close = tie_round_trip [of 1 3 7 13 pending_ties True]
  have b: "m_tieStack (OpenTie 1 3 7 13 pending_ties)
     = [(9, musicxml_OpenTie 1 1 PITCHNAME_d 5), (10, musicxml_OpenTie 1 1 PITCHNAME_c 5),
        (11, musicxml_OpenTie 2 1 PITCHNAME_c 4), (12, musicxml_OpenTie 1 2 PITCHNAME_c 4),
        (13, musicxml_OpenTie 1 1 PITCHNAME_c 4)]"
    using open_close [THEN conjunct2, THEN conjunct1] by (simp add: pending_ties_facts del: One_nat_def)
  have c: "m_tieStack (CloseTie 1 3 8 True (OpenTie 1 3 7 13 pending_ties))
     = [(9, musicxml_OpenTie 1 1 PITCHNAME_d 5), (10, musicxml_OpenTie 1 1 PITCHNAME_c 5),
        (11, musicxml_OpenTie 2 1 PITCHNAME_c 4), (12, musicxml_OpenTie 1 2 PITCHNAME_c 4)]
   \<and> att_startid (objs (CloseTie 1 3 8 True (OpenTie 1 3 7 13 pending_ties)) 13) = ''#m-7''
   \<and> att_endid (objs (CloseTie 1 3 8 True (OpenTie 1 3 7 13 pending_ties)) 13) = ''#m-8''"
    using open_close [THEN conjunct2, THEN conjunct2, THEN conjunct2, THEN conjunct2,
      THEN conjunct2, rule_format, of 1 3 8]
    by (simp add: pending_ties_facts del: One_nat_def)
  show ?thesis using a b c by (simp add: pending_middle_facts(1) del: One_nat_def)
qed

text \<open>
  Claim C3, as amended. Closing a tie when every pending tie differs from the note in the
  staff number, the layer number, the pitch name or the octave changes nothing at all: no
  warning is logged (the importer calls \<^verbatim>\<open>CloseTie\<close> for every pitched note, with
  or without a tie). Closing a slur when every pending slur differs in the staff number,
  the layer number or the slur number logs exactly one warning, which names the element
  between quotes, and changes nothing else. Neither can fail.
\<close>

theorem close_without_match:
  "((\<forall>x \<in> set (m_tieStack s).
        tie_staffN (snd x) \<noteq> GetN s staff \<or> tie_layerN (snd x) \<noteq> GetN s layer
        \<or> tie_pname (snd x) \<noteq> GetPname s note \<or> tie_oct (snd x) \<noteq> GetOct s note)
      \<longrightarrow> CloseTie staff layer note b s = s)
   \<and> ((\<forall>x \<in> set (m_slurStack s).
          slur_staffN (snd x) \<noteq> GetN s staff \<or> slur_layerN (snd x) \<noteq> GetN s layer
          \<or> slur_number (snd x) \<noteq> number)
      \<longrightarrow> CloseSlur staff layer number element s
          = s\<lparr>warnings := warnings s @ [''Closing slur for element ''
                                          @ [CHR 0x27] @ GetUuid s element @ [CHR 0x27]
                                          @ '' could not be matched'']\<rparr>)"
proof (intro conjI impI)
  assume "\<forall>x \<in> set (m_tieStack s).
        tie_staffN (snd x) \<noteq> GetN s staff \<or> tie_layerN (snd x) \<noteq> GetN s layer
        \<or> tie_pname (snd x) \<noteq> GetPname s note \<or> tie_oct (snd x) \<noteq> GetOct s note"
  then have "list_all (\<lambda>x. \<not> tie_match s staff layer note x) (m_tieStack s)"
    by (auto simp add: list_all_iff tie_match_def)
  then show "CloseTie staff layer note b s = s"
    by (simp add: CloseTie_def find_none)
next
  assume "\<forall>x \<in> set (m_slurStack s).
          slur_staffN (snd x) \<noteq> GetN s staff \<or> slur_layerN (snd x) \<noteq> GetN s layer
          \<or> slur_number (snd x) \<noteq> number"
  then have "list_all (\<lambda>x. \<not> slur_match s staff layer number x) (m_slurStack s)"
    by (auto simp add: list_all_iff slur_match_def)
  then show "CloseSlur staff layer number element s
          = s\<lparr>warnings := warnings s @ [''Closing slur for element ''
                                          @ [CHR 0x27] @ GetUuid s element @ [CHR 0x27]
                                          @ '' could not be matched'']\<rparr>"
    by (simp add: CloseSlur_def find_none LogWarning_def quoted_def)
qed

lemma pending_slurs_facts:
  "m_tieStack pending_slurs
   = [(9, musicxml_OpenTie 1 1 PITCHNAME_d 5), (10, musicxml_OpenTie 1 1 PITCHNAME_c 5),
      (11, musicxml_OpenTie 2 1 PITCHNAME_c 4), (12, musicxml_OpenTie 1 2 PITCHNAME_c 4)]"
  "m_slurStack pending_slurs
   = [(14, musicxml_OpenSlur 1 1 2), (15, musicxml_OpenSlur 2 1 1), (16, musicxml_OpenSlur 1 2 1)]"
  "GetN pending_slurs 1 = 1" "GetN pending_slurs 3 = 1"
  "GetPname pending_slurs 8 = PITCHNAME_c" "GetOct pending_slurs 8 = 4"
  "GetUuid pending_slurs 8 = ''m-8''"
  "warnings pending_slurs = []"
  by (simp_all add: pending_slurs_def pending_ties_def pending_objects_def OpenTie_def
      OpenSlur_def store_defs dec_digits del: One_nat_def)

theorem close_without_match_witness:
  "m_tieStack pending_slurs
   = [(9, musicxml_OpenTie 1 1 PITCHNAME_d 5), (10, musicxml_OpenTie 1 1 PITCHNAME_c 5),
      (11, musicxml_OpenTie 2 1 PITCHNAME_c 4), (12, musicxml_OpenTie 1 2 PITCHNAME_c 4)]
   \<and> m_slurStack pending_slurs
     = [(14, musicxml_OpenSlur 1 1 2), (15, musicxml_OpenSlur 2 1 1), (16, musicxml_OpenSlur 1 2 1)]
   \<and> GetN pending_slurs 1 = 1 \<and> GetN pending_slurs 3 = 1
   \<and> GetPname pending_slurs 8 = PITCHNAME_c \<and> GetOct pending_slurs 8 = 4
   \<and> CloseTie 1 3 8 True pending_slurs = pending_slurs
   \<and> CloseTie 1 3 8 False pending_slurs = pending_slurs
   \<and> CloseSlur 1 3 1 8 pending_slurs
       = pending_slurs\<lparr>warnings :=
           [''Closing slur for element '' @ [CHR 0x27] @ ''m-8'' @ [CHR 0x27]
            @ '' could not be matched'']\<rparr>"
  using close_without_match [of pending_slurs 1 3 8 True 1 8]
    close_without_match [of pending_slurs 1 3 8 False 1 8]
  by (simp add: pending_slurs_facts del: One_nat_def)

text \<open>The claim as stated asks for a warning from both. With four ties and three slurs
  pending, none of them matching, \<^verbatim>\<open>CloseTie\<close> logs none, with or without a stop
  marking on the note.\<close>

theorem CloseTie_silent_counterexample:
  "m_tieStack pending_slurs
   = [(9, musicxml_OpenTie 1 1 PITCHNAME_d 5), (10, musicxml_OpenTie 1 1 PITCHNAME_c 5),
      (11, musicxml_OpenTie 2 1 PITCHNAME_c 4), (12, musicxml_OpenTie 1 2 PITCHNAME_c 4)]
   \<and> GetN pending_slurs 1 = 1 \<and> GetN pending_slurs 3 = 1
   \<and> GetPname pending_slurs 8 = PITCHNAME_c \<and> GetOct pending_slurs 8 = 4
   \<and> warnings (CloseTie 1 3 8 True pending_slurs) = warnings pending_slurs
   \<and> warnings (CloseTie 1 3 8 False pending_slurs) = warnings pending_slurs"
  by (simp add: pending_slurs_facts CloseTie_def tie_match_def del: One_nat_def)

subsection \<open>Lookup tables\<close>



subsection \<open>The entry points\<close>

lemmas xml_defs = select_single_node_def select_nodes_def has_node_def nm_def
  GetContentOfChild_def HasContent_def GetContent_def GetAttributeValue_def
  HasAttributeWithValue_def IsElement_def sibling_named_def first_child_def

lemma bind_weak_cong: "x = y \<Longrightarrow> Option.bind x f = Option.bind y f"
  by simp

lemmas weak_congs = let_weak_cong prod.case_cong_weak option.case_cong_weak
  list.case_cong_weak bind_weak_cong

text \<open>\<^verbatim>\<open>ImportFile\<close> tests the parse result: on a failure it returns false, having
  done no more than set the type of the document.\<close>

lemma ImportFile_parse_failure:
  "\<not> fst (load_file filename)
   \<Longrightarrow> ImportFile load_file filename s = Some (False, SetType Raw s)"
  by (cases "load_file filename") (simp add: ImportFile_def Let_def)

text \<open>\<^verbatim>\<open>ReadMusicXml\<close> has a single \<^verbatim>\<open>return\<close>, of the value true, and
  \<^verbatim>\<open>ImportString\<close> returns what it returns, whatever the parser said.\<close>

lemma ReadMusicXml_true: "ReadMusicXml xmlDoc r s = Some (b, s') \<Longrightarrow> b"
  unfolding ReadMusicXml_def Let_def split_beta
  by (simp add: Option.bind_eq_Some_conv split: if_splits) blast

lemma ImportString_never_false: "ImportString load musicxml s \<noteq> Some (False, s')"
  using ReadMusicXml_true [of _ _ _ False s']
  by (cases "load musicxml") (auto simp add: ImportString_def Let_def)

text \<open>
  Claim C1. On a text that fails to parse, both entry points should return false and leave
  the destination as it was. The text \<^verbatim>\<open><score-partwise>\<close>, whose element is never
  closed, fails to parse, and the parser leaves the part of the tree it has built: a
  document holding an empty \<^verbatim>\<open>score-partwise\<close> element. On it, from a new importer
  whose destination has the type \<^verbatim>\<open>Raw\<close>, \<^verbatim>\<open>ImportFile\<close> returns false and the
  destination is as it was, while \<^verbatim>\<open>ImportString\<close> returns true and the destination
  has received a header, a score buffer with a section, a staff group in its score
  definition and the conversion to a page-based document.
\<close>

theorem ImportString_ignores_parse_failure:
  "ImportFile (\<lambda>_. (False, XmlNode [] [] [] [XmlNode ''score-partwise'' [] [] []]))
       ''unterminated.xml'' (MusicXmlInput_new Raw 480 4)
     = Some (False, MusicXmlInput_new Raw 480 4)
   \<and> (case ImportString (\<lambda>_. (False, XmlNode [] [] [] [XmlNode ''score-partwise'' [] [] []]))
             ''<score-partwise>'' (MusicXmlInput_new Raw 480 4) of
        None \<Rightarrow> False
      | Some (b, s') \<Rightarrow>
          b \<and> m_scoreBuffer (m_doc s') = Some 1 \<and> length (m_header (m_doc s')) = 1
          \<and> pageBased (m_doc s') = 1 \<and> next_obj s' = 4
          \<and> children (objs s' 1) = [2] \<and> classId (objs s' 2) = SECTION
          \<and> children (objs s' 0) = [3] \<and> classId (objs s' 3) = STAFFGRP
          \<and> m_doc (MusicXmlInput_new Raw 480 4)
              = \<lparr>doc_type = Raw, m_header = [], m_scoreDef = 0, m_scoreBuffer = None,
                 pageBased = 0\<rparr>
          \<and> next_obj (MusicXmlInput_new Raw 480 4) = 1
          \<and> children (objs (MusicXmlInput_new Raw 480 4) 0) = [])"
  by (simp add: ImportString_def ImportFile_def ReadMusicXml_def ReadMusicXmlTitle_def
      CreateScoreBuffer_def ConvertToPageBasedDoc_def SetType_def MusicXmlInput_new_def
      new_obj_def AddChild_def upd_def xml_defs Let_def empty_obj_def cong: weak_congs)

subsection \<open>Evaluation of the model\<close>




subsection \<open>Filler\<close>




















end
